theory Spec2Isabelle
  imports Complex_Main "HOL-Library.Multiset"
begin

section \<open>Induction planning engine: routes/trains.js and the two Mongoose models\<close>

text \<open>
  The development embeds the induction routes of the server (the second module of
  \<^verbatim>\<open>neckHurts-main/routes/trains.js\<close>: \<^verbatim>\<open>formatTrainsForAI\<close>, \<^verbatim>\<open>callAIOptimizer\<close>,
  \<^verbatim>\<open>fallbackOptimization\<close>, \<^verbatim>\<open>fallbackSimulation\<close>, \<^verbatim>\<open>generateReasoning\<close>,
  \<^verbatim>\<open>generateAlerts\<close> and the \<^verbatim>\<open>POST /generate\<close> handler) together with what the handlers
  use of the train and induction-plan schemas.

  Conventions of the embedding.
  \<^item> A JavaScript object is a record. A property that the code tests for presence or
    truthiness is an \<open>option\<close>: \<open>None\<close> is a missing key (\<^verbatim>\<open>undefined\<close>).
  \<^item> A JavaScript number is an IEEE 754 double, modelled as the rational it denotes. Every
    \<^verbatim>\<open>+\<close>, \<^verbatim>\<open>-\<close>, \<^verbatim>\<open>*\<close> and \<^verbatim>\<open>/\<close> of the code is the exact operation followed by \<open>fl\<close>,
    rounding to the nearest double with ties to even; \<^verbatim>\<open>0.1\<close> is \<open>fl (1/10)\<close>. Overflow,
    subnormal numbers and the sign of zero are not modelled: the scores of a fleet are far
    from both ends of the range. The one \<^verbatim>\<open>NaN\<close> the code can produce, \<^verbatim>\<open>0 / 0\<close> in the
    average confidence, is a value of its own.
  \<^item> A \<^verbatim>\<open>Date\<close> is its \<^verbatim>\<open>getTime()\<close>, an integer count of milliseconds.
  \<^item> \<^verbatim>\<open>Date.now()\<close> is read from a \<open>clock\<close> argument.
  \<^item> \<^verbatim>\<open>Array.prototype.sort\<close> is stable; with the comparator \<^verbatim>\<open>(a, b) => b.k - a.k\<close>
    it is the stable insertion sort \<open>sort_key\<close> on the negated key.
\<close>

subsection \<open>Data model\<close>

record fitness_rec =
  isValid :: bool
  expiryDate :: "int option"

record branding_rec =
  hasBranding :: bool
  brandingPriority :: "rat option"

text \<open>The properties of a train object that the induction routes read, and the schema's
  \<^verbatim>\<open>nextMaintenanceDue\<close>, which they never read. \<open>oid\<close> is \<^verbatim>\<open>_id\<close>. The train schema has no
  \<^verbatim>\<open>maintenanceDue\<close>, \<^verbatim>\<open>performanceScore\<close> or \<^verbatim>\<open>reliabilityScore\<close> path: a stored document
  lacks them, an overlay of the simulation can carry them.\<close>

record train_rec =
  oid :: string
  trainsetId :: string
  fitnessStatus :: "fitness_rec option"
  maintenanceStatus :: "string option"
  maintenanceDue :: "bool option"
  nextMaintenanceDue :: "int option"
  currentMileage :: "rat option"
  isAvailableForService :: "bool option"
  cleaningStatus :: "string option"
  branding :: "branding_rec option"
  performanceScore :: "rat option"
  reliabilityScore :: "rat option"

text \<open>The request's \<^verbatim>\<open>constraints\<close> object is opaque to the server: a list of key/value pairs,
  \<open>[]\<close> for \<^verbatim>\<open>{}\<close>.\<close>

type_synonym constraints = "(string \<times> string) list"

datatype jsnum = Num rat | NaN

text \<open>The phrases of a reasoning string, before \<^verbatim>\<open>join('; ')\<close>. Rendering a date
  (\<^verbatim>\<open>toDateString\<close>) and a number (\<^verbatim>\<open>toLocaleString\<close>) depends on the host's locale, so
  a phrase keeps the value it interpolates.\<close>

datatype reason =
    ValidFitnessUntil "int option"
  | MaintenanceOperational
  | CurrentMileage rat
  | BrandingPriority "rat option"
  | PerformanceScore rat
  | OverallScore rat

record scored_rec =
  s_train :: string
  score :: int
  s_reasoning :: "reason list"

record entryConstraints_rec =
  c_fitnessValid :: "bool option"
  c_maintenanceReady :: "bool option"
  c_cleaningStatus :: "string option"
  c_brandingPriority :: "rat option"
  c_mileageBalance :: "rat option"

record ranked_rec =
  train :: string
  rank :: nat
  reasoning :: "reason list"
  confidenceScore :: int
  constraints :: entryConstraints_rec

record alert_rec =
  alertType :: string
  message :: string
  trainId :: string
  severity :: int

record metrics_rec =
  totalTrainsEvaluated :: "nat option"
  constraintsSatisfied :: "nat option"
  averageConfidence :: "jsnum option"
  processingTimeMs :: "int option"

record modelInfo_rec =
  version :: "string option"
  algorithm :: "string option"
  parameters :: "constraints option"

record result_rec =
  rankedTrains :: "ranked_rec list"
  alerts :: "alert_rec list"
  metrics :: metrics_rec
  modelInfo :: modelInfo_rec

text \<open>The three readings of \<^verbatim>\<open>Date.now()\<close> in one run of \<^verbatim>\<open>fallbackOptimization\<close>: at its
  start, inside \<^verbatim>\<open>generateAlerts\<close>, and at its end.\<close>

record clock =
  t_start :: int
  t_alerts :: int
  t_end :: int

subsection \<open>JavaScript idioms\<close>

text \<open>\<^verbatim>\<open>x || d\<close> on a number: \<^verbatim>\<open>undefined\<close> and \<^verbatim>\<open>0\<close> are falsy.\<close>

definition numOr :: "rat option \<Rightarrow> rat \<Rightarrow> rat" where
  "numOr x d = (case x of None \<Rightarrow> d | Some v \<Rightarrow> if v = 0 then d else v)"

text \<open>Truthiness of an optional boolean.\<close>

definition truthy :: "bool option \<Rightarrow> bool" where
  "truthy x = (case x of None \<Rightarrow> False | Some b \<Rightarrow> b)"

text \<open>\<^verbatim>\<open>train.fitnessStatus?.isValid\<close> and \<^verbatim>\<open>train.branding?.hasBranding\<close>.\<close>

definition fitnessIsValid :: "train_rec \<Rightarrow> bool" where
  "fitnessIsValid t = (case fitnessStatus t of None \<Rightarrow> False | Some f \<Rightarrow> isValid f)"

definition brandingHas :: "train_rec \<Rightarrow> bool" where
  "brandingHas t = (case branding t of None \<Rightarrow> False | Some b \<Rightarrow> hasBranding b)"

text \<open>\<^verbatim>\<open>String(n)\<close> for an integer, as a template literal interpolates it.\<close>

definition digit :: "nat \<Rightarrow> char" where
  "digit n = ''0123456789'' ! (n mod 10)"

fun string_of_nat :: "nat \<Rightarrow> string" where
  "string_of_nat n =
     (if n < 10 then [digit n] else string_of_nat (n div 10) @ [digit n])"

declare string_of_nat.simps [simp del]

definition string_of_int :: "int \<Rightarrow> string" where
  "string_of_int i =
     (if i < 0 then CHR ''-'' # string_of_nat (nat (- i)) else string_of_nat (nat i))"

subsection \<open>Double-precision arithmetic\<close>

text \<open>The number of binary digits of a positive integer.\<close>

function bitLength :: "int \<Rightarrow> nat" where
  "bitLength n = (if n \<le> 0 then 0 else Suc (bitLength (n div 2)))"
  by pat_completeness auto
termination
  by (relation "measure nat") auto

declare bitLength.simps [simp del]

definition pow2 :: "int \<Rightarrow> rat" where
  "pow2 e = (if 0 \<le> e then 2 ^ nat e else 1 / 2 ^ nat (- e))"

text \<open>The binary exponent of a positive rational: the \<open>k\<close> with \<open>2^k \<le> x < 2^(k+1)\<close>.\<close>

definition ilog2 :: "rat \<Rightarrow> int" where
  "ilog2 x =
     (if 1 \<le> x then int (bitLength \<lfloor>x\<rfloor>) - 1
      else - int (bitLength (\<lceil>1 / x\<rceil> - 1)))"

definition roundHalfEven :: "rat \<Rightarrow> int" where
  "roundHalfEven m =
     (let f = \<lfloor>m\<rfloor>; r = m - of_int f in
      if r < 1 / 2 then f
      else if 1 / 2 < r then f + 1
      else if even f then f else f + 1)"

text \<open>The nearest double: the magnitude is scaled to a 53-bit significand, rounded to the
  nearest integer with ties to even, and scaled back.\<close>

definition fl :: "rat \<Rightarrow> rat" where
  "fl x =
     (if x = 0 then 0
      else
        (let e = ilog2 \<bar>x\<bar> - 52;
             m = roundHalfEven (\<bar>x\<bar> / pow2 e)
         in sgn x * of_int m * pow2 e))"

definition fadd :: "rat \<Rightarrow> rat \<Rightarrow> rat" where
  "fadd x y = fl (x + y)"

definition fsub :: "rat \<Rightarrow> rat \<Rightarrow> rat" where
  "fsub x y = fl (x - y)"

definition fmul :: "rat \<Rightarrow> rat \<Rightarrow> rat" where
  "fmul x y = fl (x * y)"

definition fdiv :: "rat \<Rightarrow> rat \<Rightarrow> rat" where
  "fdiv x y = fl (x / y)"

text \<open>The literal \<^verbatim>\<open>0.1\<close>.\<close>

definition tenth :: rat where
  "tenth = fl (1 / 10)"

subsection \<open>generateAlerts\<close>

definition msPerDay :: int where
  "msPerDay = 1000 * 60 * 60 * 24"

text \<open>\<^verbatim>\<open>Math.floor((expiryDate.getTime() - Date.now()) / (1000 * 60 * 60 * 24))\<close>: on
  integers, \<open>div\<close> rounds towards minus infinity, as \<^verbatim>\<open>Math.floor\<close> does.\<close>

definition daysUntilExpiry :: "int \<Rightarrow> int \<Rightarrow> int" where
  "daysUntilExpiry now e = (e - now) div msPerDay"

definition fitnessAlerts :: "int \<Rightarrow> train_rec \<Rightarrow> alert_rec list" where
  "fitnessAlerts now t =
     (case fitnessStatus t of
        None \<Rightarrow> []
      | Some f \<Rightarrow>
          (case expiryDate f of
             None \<Rightarrow> []
           | Some e \<Rightarrow>
               (let d = daysUntilExpiry now e in
                if d \<le> 3 \<and> d \<ge> 0 then
                  [\<lparr>alertType = ''CRITICAL'',
                    message = trainsetId t @ '' fitness certificate expires in '' @
                              string_of_int d @ '' days'',
                    trainId = trainsetId t, severity = 5\<rparr>]
                else if d \<le> 7 \<and> d > 3 then
                  [\<lparr>alertType = ''WARNING'',
                    message = trainsetId t @ '' fitness certificate expires in '' @
                              string_of_int d @ '' days'',
                    trainId = trainsetId t, severity = 3\<rparr>]
                else if d < 0 then
                  [\<lparr>alertType = ''CRITICAL'',
                    message = trainsetId t @ '' fitness certificate has expired'',
                    trainId = trainsetId t, severity = 5\<rparr>]
                else [])))"

definition maintenanceAlerts :: "train_rec \<Rightarrow> alert_rec list" where
  "maintenanceAlerts t =
     (if truthy (maintenanceDue t) then
        [\<lparr>alertType = ''WARNING'', message = trainsetId t @ '' maintenance is due'',
          trainId = trainsetId t, severity = 4\<rparr>]
      else [])"

definition availabilityAlerts :: "train_rec \<Rightarrow> alert_rec list" where
  "availabilityAlerts t =
     (if isAvailableForService t = Some False then
        [\<lparr>alertType = ''INFO'', message = trainsetId t @ '' is not available for service'',
          trainId = trainsetId t, severity = 2\<rparr>]
      else [])"

text \<open>The body of the \<^verbatim>\<open>forEach\<close>: what one train pushes, in order.\<close>

definition trainAlerts :: "int \<Rightarrow> train_rec \<Rightarrow> alert_rec list" where
  "trainAlerts now t = fitnessAlerts now t @ maintenanceAlerts t @ availabilityAlerts t"

text \<open>The loop reads \<^verbatim>\<open>Date.now()\<close> once per train; the model takes one reading \<open>now\<close> for
  the whole loop.\<close>

definition generateAlerts :: "int \<Rightarrow> train_rec list \<Rightarrow> alert_rec list" where
  "generateAlerts now trains =
     sort_key (\<lambda>a. - severity a) (concat (map (trainAlerts now) trains))"

subsection \<open>generateReasoning\<close>

definition generateReasoning :: "train_rec \<Rightarrow> rat \<Rightarrow> reason list" where
  "generateReasoning t sc =
     (if fitnessIsValid t
        then [ValidFitnessUntil (case fitnessStatus t of None \<Rightarrow> None | Some f \<Rightarrow> expiryDate f)]
        else []) @
     (if maintenanceStatus t = Some ''OPERATIONAL'' then [MaintenanceOperational] else []) @
     (case currentMileage t of
        None \<Rightarrow> []
      | Some m \<Rightarrow> if m = 0 then [] else [CurrentMileage m]) @
     (if brandingHas t
        then [BrandingPriority (case branding t of None \<Rightarrow> None | Some b \<Rightarrow> brandingPriority b)]
        else []) @
     (case performanceScore t of
        None \<Rightarrow> []
      | Some p \<Rightarrow> if p = 0 then [] else [PerformanceScore p]) @
     [OverallScore sc]"

subsection \<open>fallbackOptimization\<close>

text \<open>The filter's predicate.\<close>

definition serviceReady :: "train_rec \<Rightarrow> bool" where
  "serviceReady t \<longleftrightarrow>
     fitnessIsValid t \<and> maintenanceStatus t = Some ''OPERATIONAL'' \<and>
     isAvailableForService t \<noteq> Some False"

text \<open>\<^verbatim>\<open>trains.reduce((sum, t) => sum + (t.currentMileage || 0), 0) / trains.length\<close>, over the
  function's whole argument. It is evaluated inside the \<^verbatim>\<open>map\<close> over the service-ready
  trains, so only when \<open>trains\<close> is not empty.\<close>

definition avgMileage :: "train_rec list \<Rightarrow> rat" where
  "avgMileage trains =
     fdiv (foldl (\<lambda>sum t. fadd sum (numOr (currentMileage t) 0)) 0 trains)
       (of_nat (length trains))"

text \<open>The local variable \<^verbatim>\<open>score\<close> at the end of the scoring callback.\<close>

definition rawScore :: "train_rec list \<Rightarrow> train_rec \<Rightarrow> rat" where
  "rawScore trains t =
     (let s0 = 0;
          s1 = (if fitnessIsValid t then fadd s0 30 else s0);
          s2 = (if maintenanceStatus t = Some ''OPERATIONAL'' then fadd s1 25 else s1);
          s3 = (if \<not> truthy (maintenanceDue t) then fadd s2 10 else s2);
          mileageDiff = \<bar>fsub (numOr (currentMileage t) 0) (avgMileage trains)\<bar>;
          s4 = fadd s3 (max 0 (fsub 15 (fdiv mileageDiff 1000)));
          s5 = (if brandingHas t
                then fadd s4
                       (fmul (numOr (case branding t of None \<Rightarrow> None
                                     | Some b \<Rightarrow> brandingPriority b) 1) 2)
                else s4);
          s6 = fadd s5 (fmul (numOr (performanceScore t) 0) tenth);
          s7 = fadd s6 (fmul (numOr (reliabilityScore t) 0) tenth);
          s8 = (if cleaningStatus t = Some ''CLEAN'' then fadd s7 5 else s7)
      in s8)"

text \<open>\<^verbatim>\<open>Math.round\<close> returns the integer nearest to its argument, a half going up, as
  \<open>round\<close> does; it is exact on a double.\<close>

definition scoreTrain :: "train_rec list \<Rightarrow> train_rec \<Rightarrow> scored_rec" where
  "scoreTrain trains t =
     \<lparr>s_train = oid t, score = round (rawScore trains t),
      s_reasoning = generateReasoning t (rawScore trains t)\<rparr>"

definition scoredTrains :: "train_rec list \<Rightarrow> scored_rec list" where
  "scoredTrains trains = map (scoreTrain trains) (filter serviceReady trains)"

text \<open>\<^verbatim>\<open>.sort((a, b) => b.score - a.score)\<close>.\<close>

definition sortByScore :: "scored_rec list \<Rightarrow> scored_rec list" where
  "sortByScore xs = sort_key (\<lambda>s. - score s) xs"

definition toRanked :: "nat \<Rightarrow> scored_rec \<Rightarrow> ranked_rec" where
  "toRanked index item =
     \<lparr>train = s_train item, rank = index + 1, reasoning = s_reasoning item,
      confidenceScore = min 100 (max 60 (score item)),
      constraints =
        \<lparr>c_fitnessValid = Some True, c_maintenanceReady = Some True,
         c_cleaningStatus = Some ''CLEAN'', c_brandingPriority = None,
         c_mileageBalance = None\<rparr>\<rparr>"

definition rankAll :: "scored_rec list \<Rightarrow> ranked_rec list" where
  "rankAll xs = map (\<lambda>(index, item). toRanked index item) (enumerate 0 xs)"

text \<open>\<^verbatim>\<open>reduce((sum, t) => sum + t.confidenceScore, 0) / rankedTrains.length\<close>. The sum of an
  empty ranking is \<open>0\<close> and \<^verbatim>\<open>0 / 0\<close> is \<^verbatim>\<open>NaN\<close>; a non-empty ranking has a positive length.\<close>

definition averageConfidenceOf :: "ranked_rec list \<Rightarrow> jsnum" where
  "averageConfidenceOf rs =
     (if length rs = 0 then NaN
      else Num (fdiv (foldl (\<lambda>sum r. fadd sum (of_int (confidenceScore r))) 0 rs)
                  (of_nat (length rs))))"

definition fallbackOptimization :: "clock \<Rightarrow> train_rec list \<Rightarrow> constraints \<Rightarrow> result_rec" where
  "fallbackOptimization clk trains cs =
     (let ranked = rankAll (sortByScore (scoredTrains trains));
          als = generateAlerts (t_alerts clk) trains
      in \<lparr>rankedTrains = ranked,
          alerts = als,
          metrics =
            \<lparr>totalTrainsEvaluated = Some (length trains),
             constraintsSatisfied = Some (length ranked),
             averageConfidence = Some (averageConfidenceOf ranked),
             processingTimeMs = Some (t_end clk - t_start clk)\<rparr>,
          modelInfo =
            \<lparr>version = Some ''1.0-fallback'',
             algorithm = Some ''Rule-Based Weighted Scoring (Fallback)'',
             parameters = Some cs\<rparr>\<rparr>)"

subsection \<open>fallbackSimulation\<close>

text \<open>The request's \<^verbatim>\<open>modifications\<close>: a partial overlay of a train object. \<open>None\<close> is a key
  the overlay does not have; \<open>Some v\<close> replaces the train's property as a whole, nested
  objects included (\<^verbatim>\<open>{ ...train, ...modifications }\<close> is a shallow merge).\<close>

record modifications_rec =
  m_oid :: "string option"
  m_trainsetId :: "string option"
  m_fitnessStatus :: "fitness_rec option"
  m_maintenanceStatus :: "string option"
  m_maintenanceDue :: "bool option"
  m_nextMaintenanceDue :: "int option"
  m_currentMileage :: "rat option"
  m_isAvailableForService :: "bool option"
  m_cleaningStatus :: "string option"
  m_branding :: "branding_rec option"
  m_performanceScore :: "rat option"
  m_reliabilityScore :: "rat option"

definition overlay :: "'a option \<Rightarrow> 'a option \<Rightarrow> 'a option" where
  "overlay old new = (case new of None \<Rightarrow> old | Some v \<Rightarrow> Some v)"

definition applyModifications :: "train_rec \<Rightarrow> modifications_rec \<Rightarrow> train_rec" where
  "applyModifications t m =
     \<lparr>oid = (case m_oid m of None \<Rightarrow> oid t | Some v \<Rightarrow> v),
      trainsetId = (case m_trainsetId m of None \<Rightarrow> trainsetId t | Some v \<Rightarrow> v),
      fitnessStatus = overlay (fitnessStatus t) (m_fitnessStatus m),
      maintenanceStatus = overlay (maintenanceStatus t) (m_maintenanceStatus m),
      maintenanceDue = overlay (maintenanceDue t) (m_maintenanceDue m),
      nextMaintenanceDue = overlay (nextMaintenanceDue t) (m_nextMaintenanceDue m),
      currentMileage = overlay (currentMileage t) (m_currentMileage m),
      isAvailableForService = overlay (isAvailableForService t) (m_isAvailableForService m),
      cleaningStatus = overlay (cleaningStatus t) (m_cleaningStatus m),
      branding = overlay (branding t) (m_branding m),
      performanceScore = overlay (performanceScore t) (m_performanceScore m),
      reliabilityScore = overlay (reliabilityScore t) (m_reliabilityScore m)\<rparr>"

record impact_rec =
  newRank :: "nat option"
  rankChange :: string
  affectedTrains :: nat

record simulation_rec =
  sim_result :: result_rec
  sim_modifiedTrain :: string
  sim_modifications :: modifications_rec
  impactAnalysis :: impact_rec

text \<open>\<^verbatim>\<open>result.rankedTrains.find(t => t.train === trainId || t.train.toString() === trainId)?.rank\<close>:
  an entry's \<^verbatim>\<open>train\<close> is the train's \<^verbatim>\<open>_id\<close>, compared with the reference as a string.\<close>

definition modifiedTrainRank :: "ranked_rec list \<Rightarrow> string \<Rightarrow> nat option" where
  "modifiedTrainRank ranked ref = map_option rank (find (\<lambda>e. train e = ref) ranked)"

definition fallbackSimulation ::
  "clock \<Rightarrow> train_rec list \<Rightarrow> string \<Rightarrow> modifications_rec \<Rightarrow> constraints \<Rightarrow> simulation_rec" where
  "fallbackSimulation clk trains ref mods cs =
     (let modifiedTrains =
            map (\<lambda>t. if trainsetId t = ref \<or> oid t = ref then applyModifications t mods else t)
              trains;
          result = fallbackOptimization clk modifiedTrains cs;
          r = modifiedTrainRank (rankedTrains result) ref
      in \<lparr>sim_result = result,
          sim_modifiedTrain = ref,
          sim_modifications = mods,
          impactAnalysis =
            \<lparr>newRank = r,
             rankChange =
               (case r of
                  Some n \<Rightarrow> ''Moved to rank '' @ string_of_nat n
                | None \<Rightarrow> ''Not in top rankings''),
             affectedTrains = length (rankedTrains result)\<rparr>\<rparr>)"

subsection \<open>formatTrainsForAI\<close>

text \<open>The object literal ends with \<^verbatim>\<open>...train\<close>, so every key the stored document has keeps
  the document's value, and a computed default survives only for a key the document
  lacks. The remaining computed keys are not read by the local optimizer.\<close>

definition formatTrain :: "train_rec \<Rightarrow> train_rec" where
  "formatTrain t =
     t\<lparr>fitnessStatus :=
         (case fitnessStatus t of
            None \<Rightarrow> Some \<lparr>isValid = False, expiryDate = None\<rparr>
          | Some f \<Rightarrow> Some f),
       maintenanceStatus :=
         (case maintenanceStatus t of None \<Rightarrow> Some ''UNKNOWN'' | Some s \<Rightarrow> Some s),
       maintenanceDue := (case maintenanceDue t of None \<Rightarrow> Some False | Some b \<Rightarrow> Some b),
       currentMileage := (case currentMileage t of None \<Rightarrow> Some 0 | Some m \<Rightarrow> Some m),
       isAvailableForService :=
         (case isAvailableForService t of None \<Rightarrow> Some True | Some b \<Rightarrow> Some b),
       cleaningStatus :=
         (case cleaningStatus t of None \<Rightarrow> Some ''UNKNOWN'' | Some s \<Rightarrow> Some s),
       branding :=
         (case branding t of
            None \<Rightarrow> Some \<lparr>hasBranding = False, brandingPriority = Some 1\<rparr>
          | Some b \<Rightarrow> Some b),
       performanceScore := (case performanceScore t of None \<Rightarrow> Some 0 | Some p \<Rightarrow> Some p),
       reliabilityScore := (case reliabilityScore t of None \<Rightarrow> Some 0 | Some p \<Rightarrow> Some p)\<rparr>"

definition formatTrainsForAI :: "train_rec list \<Rightarrow> train_rec list" where
  "formatTrainsForAI trains = map formatTrain trains"

subsection \<open>callAIOptimizer\<close>

text \<open>What \<^verbatim>\<open>axios.post\<close> settles with: a rejection carrying the error's \<^verbatim>\<open>code\<close> and
  \<^verbatim>\<open>message\<close> (\<^verbatim>\<open>ECONNREFUSED\<close> for a refused connection, \<^verbatim>\<open>ECONNABORTED\<close> for the 60 second
  timeout), or a response whose \<^verbatim>\<open>data\<close> is falsy (\<open>None\<close>) or any other body. A body is read
  only through four properties, each present or not.\<close>

record data_rec =
  d_rankedTrains :: "ranked_rec list option"
  d_alerts :: "alert_rec list option"
  d_metrics :: "metrics_rec option"
  d_modelInfo :: "modelInfo_rec option"

datatype axios_outcome =
    Rejected "string option" string
  | Resolved "data_rec option"

definition emptyMetrics :: metrics_rec where
  "emptyMetrics =
     \<lparr>totalTrainsEvaluated = None, constraintsSatisfied = None, averageConfidence = None,
      processingTimeMs = None\<rparr>"

definition unknownModel :: modelInfo_rec where
  "unknownModel = \<lparr>version = Some ''unknown'', algorithm = None, parameters = None\<rparr>"

text \<open>\<open>Inl msg\<close> is the \<^verbatim>\<open>Error\<close> the function throws. The \<^verbatim>\<open>throw\<close> of the empty response
  happens inside the \<^verbatim>\<open>try\<close>, so the \<^verbatim>\<open>catch\<close> handles it as an error without a code.\<close>

definition callAIOptimizer ::
  "clock \<Rightarrow> axios_outcome \<Rightarrow> train_rec list \<Rightarrow> constraints option \<Rightarrow> string + result_rec" where
  "callAIOptimizer clk outcome trains cs_opt =
     (let cs = (case cs_opt of None \<Rightarrow> [] | Some c \<Rightarrow> c) in
      case outcome of
        Resolved (Some d) \<Rightarrow>
          Inr \<lparr>rankedTrains = (case d_rankedTrains d of None \<Rightarrow> [] | Some r \<Rightarrow> r),
               alerts = (case d_alerts d of None \<Rightarrow> [] | Some a \<Rightarrow> a),
               metrics = (case d_metrics d of None \<Rightarrow> emptyMetrics | Some m \<Rightarrow> m),
               modelInfo = (case d_modelInfo d of None \<Rightarrow> unknownModel | Some m \<Rightarrow> m)\<rparr>
      | Resolved None \<Rightarrow> Inl ''AI optimization failed: Empty response from AI service''
      | Rejected code msg \<Rightarrow>
          if code = Some ''ECONNREFUSED'' then Inr (fallbackOptimization clk trains cs)
          else Inl (''AI optimization failed: '' @ msg))"

subsection \<open>The induction-plan model and POST /generate\<close>

record plan_rec =
  plan_id :: nat
  planDate :: int
  plan_rankedTrains :: "ranked_rec list"
  plan_alerts :: "alert_rec list"
  optimizationMetrics :: metrics_rec
  generatedBy :: string
  aiModelInfo :: modelInfo_rec
  status :: string

text \<open>The schema's defaults for the paths a document leaves undefined.\<close>

definition metricsDefaults :: "metrics_rec \<Rightarrow> metrics_rec" where
  "metricsDefaults m =
     \<lparr>totalTrainsEvaluated = Some (case totalTrainsEvaluated m of None \<Rightarrow> 0 | Some n \<Rightarrow> n),
      constraintsSatisfied = Some (case constraintsSatisfied m of None \<Rightarrow> 0 | Some n \<Rightarrow> n),
      averageConfidence = Some (case averageConfidence m of None \<Rightarrow> Num 0 | Some n \<Rightarrow> n),
      processingTimeMs = Some (case processingTimeMs m of None \<Rightarrow> 0 | Some n \<Rightarrow> n)\<rparr>"

definition modelInfoDefaults :: "modelInfo_rec \<Rightarrow> modelInfo_rec" where
  "modelInfoDefaults m =
     \<lparr>version = Some (case version m of None \<Rightarrow> ''1.0'' | Some v \<Rightarrow> v),
      algorithm =
        Some (case algorithm m of None \<Rightarrow> ''Multi-Objective Optimization'' | Some a \<Rightarrow> a),
      parameters = Some (case parameters m of None \<Rightarrow> [] | Some c \<Rightarrow> c)\<rparr>"

text \<open>\<^verbatim>\<open>InductionPlan.findOne({ planDate, status: 'FINALIZED' })\<close>.\<close>

definition findFinalized :: "plan_rec list \<Rightarrow> int \<Rightarrow> plan_rec option" where
  "findFinalized plans d = find (\<lambda>p. planDate p = d \<and> status p = ''FINALIZED'') plans"

text \<open>The validators the schema declares on a ranked entry (\<^verbatim>\<open>rank\<close> with \<^verbatim>\<open>min: 1\<close>,
  \<^verbatim>\<open>confidenceScore\<close> with \<^verbatim>\<open>min: 0\<close> and \<^verbatim>\<open>max: 100\<close>, \<^verbatim>\<open>reasoning\<close> required) and on an
  alert (\<^verbatim>\<open>type\<close> in the enum, \<^verbatim>\<open>message\<close> required, \<^verbatim>\<open>severity\<close> between 1 and 5). A required
  string is rejected when empty. The entry's \<^verbatim>\<open>train\<close> is taken to be a well-formed id.\<close>

definition validRanked :: "ranked_rec \<Rightarrow> bool" where
  "validRanked r \<longleftrightarrow>
     1 \<le> rank r \<and> 0 \<le> confidenceScore r \<and> confidenceScore r \<le> 100 \<and> reasoning r \<noteq> []"

definition validAlert :: "alert_rec \<Rightarrow> bool" where
  "validAlert a \<longleftrightarrow>
     alertType a \<in> set [''WARNING'', ''CRITICAL'', ''INFO''] \<and> message a \<noteq> [] \<and>
     1 \<le> severity a \<and> severity a \<le> 5"

text \<open>Mongoose casts every \<^verbatim>\<open>Number\<close> path and refuses \<^verbatim>\<open>NaN\<close>; the cast error surfaces when
  the document is validated on \<^verbatim>\<open>save()\<close>. \<^verbatim>\<open>averageConfidence\<close> is the one path that can hold
  \<^verbatim>\<open>NaN\<close>.\<close>

definition validPlan :: "plan_rec \<Rightarrow> bool" where
  "validPlan p \<longleftrightarrow>
     list_all validRanked (plan_rankedTrains p) \<and> list_all validAlert (plan_alerts p) \<and>
     averageConfidence (optimizationMetrics p) \<noteq> Some NaN"

text \<open>\<^verbatim>\<open>plan.save()\<close>. The document is validated first; an invalid document is rejected and
  nothing is written. The schema declares \<^verbatim>\<open>planDate\<close> with \<^verbatim>\<open>unique: true\<close>: the collection
  has a unique index on \<^verbatim>\<open>planDate\<close> alone, and an insert whose \<^verbatim>\<open>planDate\<close> is already
  stored is rejected with a duplicate-key error. The two messages stand for the errors'
  texts.\<close>

definition save :: "plan_rec \<Rightarrow> plan_rec list \<Rightarrow> string + plan_rec list" where
  "save p plans =
     (if \<not> validPlan p then Inl ''InductionPlan validation failed''
      else if planDate p \<in> set (map planDate plans)
      then Inl ''E11000 duplicate key error collection: inductionplans index: planDate_1''
      else Inr (plans @ [p]))"

record body_rec =
  b_planDate :: "int option"
  b_forceRegenerate :: "bool option"
  b_constraints :: "constraints option"

datatype response =
    Status201 plan_rec
  | Status400
  | Status409 nat
  | Status500 string

record db_rec =
  db_plans :: "plan_rec list"
  db_trains :: "train_rec list"

text \<open>\<^verbatim>\<open>new InductionPlan({ ... })\<close> as the handler fills it, with the schema's defaults.\<close>

definition newInductionPlan :: "nat \<Rightarrow> int \<Rightarrow> string \<Rightarrow> result_rec \<Rightarrow> plan_rec" where
  "newInductionPlan fresh d user aiResult =
     \<lparr>plan_id = fresh, planDate = d,
      plan_rankedTrains = rankedTrains aiResult,
      plan_alerts = alerts aiResult,
      optimizationMetrics = metricsDefaults (metrics aiResult),
      generatedBy = user,
      aiModelInfo = modelInfoDefaults (modelInfo aiResult),
      status = ''FINALIZED''\<rparr>"

text \<open>The handler after \<^verbatim>\<open>requireSupervisor\<close> has let the request through. \<open>today\<close> is the
  \<^verbatim>\<open>new Date()\<close> of the destructuring default, \<open>user\<close> is \<^verbatim>\<open>req.user._id\<close>, \<open>fresh\<close> the
  \<^verbatim>\<open>_id\<close> the driver gives the new document, \<open>outcome\<close> what the optimizer service answers.
  The result is the response and the database afterwards.\<close>

definition generate ::
  "clock \<Rightarrow> int \<Rightarrow> string \<Rightarrow> nat \<Rightarrow> axios_outcome \<Rightarrow> body_rec \<Rightarrow> db_rec \<Rightarrow> response \<times> db_rec" where
  "generate clk today user fresh outcome body db =
     (let d = (case b_planDate body of None \<Rightarrow> today | Some x \<Rightarrow> x);
          forceRegenerate = truthy (b_forceRegenerate body);
          existingPlan = findFinalized (db_plans db) d;
          proceed =
            (if length (db_trains db) = 0 then (Status400, db)
             else
               (case callAIOptimizer clk outcome (formatTrainsForAI (db_trains db))
                       (b_constraints body) of
                  Inl msg \<Rightarrow> (Status500 msg, db)
                | Inr aiResult \<Rightarrow>
                    (let plan = newInductionPlan fresh d user aiResult
                     in case save plan (db_plans db) of
                          Inl err \<Rightarrow> (Status500 err, db)
                        | Inr plans' \<Rightarrow> (Status201 plan, db\<lparr>db_plans := plans'\<rparr>))))
      in case existingPlan of
           Some e \<Rightarrow> if \<not> forceRegenerate then (Status409 (plan_id e), db) else proceed
         | None \<Rightarrow> proceed)"

subsection \<open>The specification's formulas\<close>

text \<open>The definitions of this subsection follow the words of the specification, not the code;
  the theorems compare them with the functions above.
  \<^item> \<open>spec_fitnessValid\<close> is "\<^verbatim>\<open>train.fitness.valid\<close> and \<^verbatim>\<open>train.fitness.expiry > now\<close>".
  \<^item> \<open>spec_maintenanceDue\<close> is "\<^verbatim>\<open>nextMaintenanceDue \<le> now\<close> or status =
    \<^verbatim>\<open>MAINTENANCE_DUE\<close>".
  \<^item> \<open>spec_hardEligible\<close> is "\<^verbatim>\<open>fitnessValid\<close> and status = \<^verbatim>\<open>OPERATIONAL\<close> and
    \<^verbatim>\<open>availableForService\<close>".
  \<^item> \<open>spec_meanMileage\<close> is the arithmetic mean of the current mileage over a pool, summed
    in the pool's order.
  \<^item> \<open>spec_score\<close> is the scorer's list read from top to bottom, given the fitness bit, the
    maintenance-due bit and the mean: +30 if \<^verbatim>\<open>fitnessValid\<close>, +25 if status =
    \<^verbatim>\<open>OPERATIONAL\<close>, +10 if not \<^verbatim>\<open>maintenanceDue\<close>, the mileage term, +2 times the priority
    if \<^verbatim>\<open>hasBranding\<close>, a tenth of the performance and of the reliability score, +5 if the
    cleaning status is \<^verbatim>\<open>CLEAN\<close>; a missing priority is 1 and a missing score 0.
  \<^item> \<open>spec_confidence\<close> is \<^verbatim>\<open>clamp(round(score), 60, 100)\<close>.
  The sums and products are those of doubles, as everywhere in the program.\<close>

definition spec_fitnessValid :: "int \<Rightarrow> train_rec \<Rightarrow> bool" where
  "spec_fitnessValid now t =
     (case fitnessStatus t of
        None \<Rightarrow> False
      | Some f \<Rightarrow> isValid f \<and> (case expiryDate f of None \<Rightarrow> False | Some e \<Rightarrow> e > now))"


definition spec_hardEligible :: "int \<Rightarrow> train_rec \<Rightarrow> bool" where
  "spec_hardEligible now t \<longleftrightarrow>
     spec_fitnessValid now t \<and> maintenanceStatus t = Some ''OPERATIONAL'' \<and>
     isAvailableForService t \<noteq> Some False"





definition clamp :: "int \<Rightarrow> int \<Rightarrow> int \<Rightarrow> int" where
  "clamp x lo hi = (if x < lo then lo else if x > hi then hi else x)"

definition spec_confidence :: "rat \<Rightarrow> int" where
  "spec_confidence s = clamp (round s) 60 100"

subsection \<open>Concrete fleets, requests and stores\<close>

text \<open>A train in good standing, parametrised by its \<^verbatim>\<open>_id\<close>, trainset code, mileage and
  fitness expiry; the clock reads 1000000000000 ms at the start of a run.\<close>

definition exTrain :: "string \<Rightarrow> string \<Rightarrow> rat \<Rightarrow> int \<Rightarrow> train_rec" where
  "exTrain i code km expiry =
     \<lparr>oid = i, trainsetId = code,
      fitnessStatus = Some \<lparr>isValid = True, expiryDate = Some expiry\<rparr>,
      maintenanceStatus = Some ''OPERATIONAL'', maintenanceDue = Some False,
      nextMaintenanceDue = None,
      currentMileage = Some km, isAvailableForService = Some True,
      cleaningStatus = Some ''CLEAN'',
      branding = Some \<lparr>hasBranding = False, brandingPriority = Some 1\<rparr>,
      performanceScore = Some 0, reliabilityScore = Some 0\<rparr>"

definition exClock :: clock where
  "exClock = \<lparr>t_start = 1000000000000, t_alerts = 1000000000000, t_end = 1000000000002\<rparr>"

definition future :: int where
  "future = 2000000000000"

definition exExpired :: train_rec where
  "exExpired = exTrain ''665f1c2ab7e4a90012345606'' ''TS-06'' 5000 (1000000000000 - msPerDay)"

definition exLow :: train_rec where
  "exLow = exTrain ''665f1c2ab7e4a90012345601'' ''TS-01'' 0 future"

definition exGrounded :: train_rec where
  "exGrounded = (exTrain ''665f1c2ab7e4a90012345602'' ''TS-02'' 10000 future)
                  \<lparr>maintenanceStatus := Some ''IN_MAINTENANCE''\<rparr>"

definition exA :: train_rec where
  "exA = exTrain ''665f1c2ab7e4a900123456a1'' ''TS-01'' 5000 future"

definition exB :: train_rec where
  "exB = exTrain ''665f1c2ab7e4a900123456b2'' ''TS-02'' 5000 future"

definition exSoon :: train_rec where
  "exSoon = exTrain ''665f1c2ab7e4a90012345604'' ''TS-04'' 5000 (1000000000000 + 2 * msPerDay)"

definition noModifications :: modifications_rec where
  "noModifications =
     \<lparr>m_oid = None, m_trainsetId = None, m_fitnessStatus = None, m_maintenanceStatus = None,
      m_maintenanceDue = None, m_nextMaintenanceDue = None, m_currentMileage = None,
      m_isAvailableForService = None,
      m_cleaningStatus = None, m_branding = None, m_performanceScore = None,
      m_reliabilityScore = None\<rparr>"

definition refused :: axios_outcome where
  "refused = Rejected (Some ''ECONNREFUSED'') ''connect ECONNREFUSED 127.0.0.1:5000''"

definition timedOut :: axios_outcome where
  "timedOut = Rejected (Some ''ECONNABORTED'') ''timeout of 60000ms exceeded''"

definition exBody :: "bool \<Rightarrow> body_rec" where
  "exBody force =
     \<lparr>b_planDate = Some 1000080000000, b_forceRegenerate = Some force, b_constraints = None\<rparr>"

definition exDb :: db_rec where
  "exDb = \<lparr>db_plans = [], db_trains = [exA]\<rparr>"

definition exDb1 :: db_rec where
  "exDb1 = snd (generate exClock 1000000000000 ''u1'' 1 refused (exBody False) exDb)"

definition exDirty :: train_rec where
  "exDirty = exA\<lparr>cleaningStatus := Some ''CLEANING_DUE'', maintenanceDue := Some True\<rparr>"




text \<open>A database whose one train is in maintenance.\<close>

definition exDbGrounded :: db_rec where
  "exDbGrounded = \<lparr>db_plans = [], db_trains = [exGrounded]\<rparr>"

section \<open>Properties\<close>

subsection \<open>Unfolding sets for evaluation\<close>

lemmas ex_defs = exTrain_def exClock_def future_def

lemmas float_defs = fadd_def fsub_def fmul_def fdiv_def

lemmas opt_defs = fallbackOptimization_def rankAll_def sortByScore_def scoredTrains_def
  serviceReady_def fitnessIsValid_def enumerate_eq_zip toRanked_def scoreTrain_def rawScore_def
  Let_def avgMileage_def numOr_def truthy_def brandingHas_def generateReasoning_def
  averageConfidenceOf_def float_defs


lemmas alert_defs = generateAlerts_def trainAlerts_def fitnessAlerts_def maintenanceAlerts_def
  availabilityAlerts_def daysUntilExpiry_def msPerDay_def

lemmas sim_defs = fallbackSimulation_def modifiedTrainRank_def applyModifications_def
  overlay_def noModifications_def

lemmas gen_defs = generate_def callAIOptimizer_def formatTrainsForAI_def formatTrain_def
  findFinalized_def save_def newInductionPlan_def metricsDefaults_def modelInfoDefaults_def
  emptyMetrics_def unknownModel_def refused_def timedOut_def exBody_def exDb_def

subsection \<open>Doubles\<close>

lemma bitLength_le: "n < 2 ^ k \<Longrightarrow> bitLength n \<le> k"
proof (induction k arbitrary: n)
  case 0
  then show ?case
    by (simp add: bitLength.simps)
next
  case (Suc k)
  show ?case
  proof (cases "n \<le> 0")
    case True
    then show ?thesis
      by (simp add: bitLength.simps)
  next
    case False
    from Suc.prems have "n div 2 < 2 ^ k"
      by simp
    then have "bitLength (n div 2) \<le> k"
      by (rule Suc.IH)
    with False show ?thesis
      by (simp add: bitLength.simps)
  qed
qed

lemma roundHalfEven_of_int: "roundHalfEven (of_int z) = z"
  by (simp add: roundHalfEven_def)

text \<open>An integer below \<open>2^53\<close> is a double: rounding leaves it as it is.\<close>

lemma fl_of_int:
  assumes "0 < n" and "n < 2 ^ 53"
  shows "fl (of_int n) = of_int n"
proof -
  from assms(2) have b: "bitLength n \<le> 53"
    by (rule bitLength_le)
  from assms(1) have one: "(1::rat) \<le> of_int n"
    by simp
  define j where "j = 53 - bitLength n"
  have e: "ilog2 \<bar>of_int n\<bar> - 52 = - int j"
    using assms(1) b one by (simp add: ilog2_def j_def)
  have p: "pow2 (- int j) = 1 / 2 ^ j"
    by (cases j) (simp_all add: pow2_def nat_add_distrib)
  have m: "\<bar>of_int n :: rat\<bar> / pow2 (- int j) = of_int (n * 2 ^ j)"
    using assms(1) by (simp add: p)
  have nz: "(of_int n :: rat) \<noteq> 0"
    using assms(1) by simp
  have sg: "sgn (of_int n :: rat) = 1"
    using assms(1) by simp
  show ?thesis
    unfolding fl_def Let_def e m roundHalfEven_of_int
    using nz sg by (simp add: p)
qed

lemma fl_numeral [simp]: "numeral k < (2::int) ^ 53 \<Longrightarrow> fl (numeral k) = numeral k"
  using fl_of_int [of "numeral k"] by simp

lemma fl_zero [simp]: "fl 0 = 0"
  by (simp add: fl_def)

lemma fl_one [simp]: "fl 1 = 1"
  using fl_of_int [of 1] by simp

lemma fl_minus [simp]: "fl (- x) = - fl x"
  by (simp add: fl_def Let_def)


subsection \<open>The ranking, entry by entry\<close>

lemma map_enumerate_snd: "map (\<lambda>x. g (snd x)) (enumerate n xs) = map g xs"
  by (induction xs arbitrary: n) simp_all

lemma map_enumerate_fst: "map (\<lambda>x. h (fst x)) (enumerate n xs) = map h [n..<n + length xs]"
  by (simp only: map_fst_enumerate [symmetric] map_map comp_def)

lemma map_confidence_rankAll:
  "map confidenceScore (rankAll xs) = map (\<lambda>s. min 100 (max 60 (score s))) xs"
  by (simp add: rankAll_def toRanked_def case_prod_unfold comp_def
        map_enumerate_snd [of "\<lambda>s. min 100 (max 60 (score s))"])

lemma map_train_rankAll: "map train (rankAll xs) = map s_train xs"
  by (simp add: rankAll_def toRanked_def case_prod_unfold comp_def map_enumerate_snd)

lemma map_constraints_rankAll:
  "map constraints (rankAll xs) =
     replicate (length xs)
       \<lparr>c_fitnessValid = Some True, c_maintenanceReady = Some True,
        c_cleaningStatus = Some ''CLEAN'', c_brandingPriority = None,
        c_mileageBalance = None\<rparr>"
  by (simp add: rankAll_def toRanked_def case_prod_unfold comp_def map_replicate_const)

lemma map_rank_rankAll: "map rank (rankAll xs) = [1..<length xs + 1]"
proof -
  have "map rank (rankAll xs) = map Suc [0..<0 + length xs]"
    by (simp add: rankAll_def toRanked_def case_prod_unfold comp_def
          map_enumerate_fst [of Suc])
  then show ?thesis
    by (simp add: map_Suc_upt)
qed

subsection \<open>Sorting\<close>

lemma sort_key_map_comm: "sort_key f (map g xs) = map g (sort_key (\<lambda>x. f (g x)) xs)"
proof (induction xs)
  case Nil
  show ?case by simp
next
  case (Cons x xs)
  have ins: "insort_key f (g x) (map g ys) = map g (insort_key (\<lambda>x. f (g x)) x ys)" for ys
    by (induction ys) simp_all
  show ?case using Cons by (simp add: ins)
qed

lemma sorted_desc_sort_key:
  "sorted_wrt (\<lambda>a b. f a \<ge> f b) (sort_key (\<lambda>x. - f x) xs)" for f :: "'a \<Rightarrow> int"
proof -
  have "sorted (map (\<lambda>x. - f x) (sort_key (\<lambda>x. - f x) xs))"
    by (rule sorted_sort_key)
  then show ?thesis
    by (simp add: sorted_map)
qed

lemma sortByScore_scoredTrains:
  "sortByScore (scoredTrains trains) =
     map (scoreTrain trains)
       (sort_key (\<lambda>t. - round (rawScore trains t)) (filter serviceReady trains))"
  by (simp add: sortByScore_def scoredTrains_def sort_key_map_comm scoreTrain_def)

subsection \<open>The score\<close>



lemma spec_confidence_eq: "min 100 (max 60 (round s)) = spec_confidence s"
  by (simp add: spec_confidence_def clamp_def)

lemma spec_confidence_mono: "a \<le> b \<Longrightarrow> spec_confidence a \<le> spec_confidence b"
proof -
  assume "a \<le> b"
  then have "round a \<le> round b"
    by (rule round_mono)
  then show ?thesis
    by (simp add: spec_confidence_def clamp_def)
qed

lemma spec_confidence_nonpos: "s \<le> 0 \<Longrightarrow> spec_confidence s = 60"
proof -
  assume "s \<le> 0"
  then have "round s \<le> round (0::rat)"
    by (rule round_mono)
  then show ?thesis
    by (simp add: spec_confidence_def clamp_def)
qed

subsection \<open>Strings\<close>

lemma string_of_int_digit: "0 \<le> d \<Longrightarrow> d < 10 \<Longrightarrow> string_of_int d = [digit (nat d)]"
  by (simp add: string_of_int_def string_of_nat.simps)

subsection \<open>Alerts\<close>

lemma mset_alerts_of_train:
  "t \<in> set trains \<Longrightarrow> mset (fitnessAlerts now t) \<subseteq># mset (concat (map (trainAlerts now) trains))"
proof (induction trains)
  case Nil
  then show ?case
    by simp
next
  case (Cons x xs)
  show ?case
  proof (cases "t = x")
    case True
    then show ?thesis
      by (simp add: trainAlerts_def)
  next
    case False
    with Cons.prems have "t \<in> set xs"
      by simp
    then have "mset (fitnessAlerts now t) \<subseteq># mset (concat (map (trainAlerts now) xs))"
      by (rule Cons.IH)
    then show ?thesis
      by (simp add: subset_mset.add_increasing)
  qed
qed

subsection \<open>Validation of the local optimizer's result\<close>

lemma in_rankAll: "r \<in> set (rankAll xs) \<Longrightarrow> \<exists>i x. x \<in> set xs \<and> r = toRanked i x"
proof -
  assume "r \<in> set (rankAll xs)"
  then obtain a where a: "a < length xs" and r: "r = toRanked a (xs ! a)"
    by (auto simp: rankAll_def in_set_enumerate_eq)
  from a have "xs ! a \<in> set xs"
    by simp
  with r show ?thesis
    by blast
qed

lemma validRanked_toRanked: "s_reasoning x \<noteq> [] \<Longrightarrow> validRanked (toRanked i x)"
  by (simp add: validRanked_def toRanked_def)

lemma scoredTrains_reasoning: "x \<in> set (scoredTrains trains) \<Longrightarrow> s_reasoning x \<noteq> []"
  by (auto simp: scoredTrains_def scoreTrain_def generateReasoning_def)

lemma ranking_valid:
  "list_all validRanked (rankedTrains (fallbackOptimization clk trains cs))"
proof -
  have "validRanked r" if "r \<in> set (rankAll (sortByScore (scoredTrains trains)))" for r
  proof -
    from in_rankAll [OF that] obtain i x
      where x: "x \<in> set (sortByScore (scoredTrains trains))" and r: "r = toRanked i x"
      by blast
    from x have "x \<in> set (scoredTrains trains)"
      by (simp add: sortByScore_def)
    then have "s_reasoning x \<noteq> []"
      by (rule scoredTrains_reasoning)
    with r show ?thesis
      by (simp add: validRanked_toRanked)
  qed
  then show ?thesis
    by (simp add: fallbackOptimization_def Let_def list_all_iff)
qed

lemma trainAlerts_valid: "a \<in> set (trainAlerts now t) \<Longrightarrow> validAlert a"
  by (auto simp: trainAlerts_def fitnessAlerts_def maintenanceAlerts_def
        availabilityAlerts_def validAlert_def Let_def split: option.splits if_splits)

lemma alerts_valid: "list_all validAlert (alerts (fallbackOptimization clk trains cs))"
  by (auto simp: fallbackOptimization_def Let_def generateAlerts_def list_all_iff
        dest: trainAlerts_valid)

lemma ranking_empty_iff:
  "rankedTrains (fallbackOptimization clk trains cs) = [] \<longleftrightarrow>
     \<not> (\<exists>t \<in> set trains. serviceReady t)"
proof -
  have "length (rankedTrains (fallbackOptimization clk trains cs)) =
          length (filter serviceReady trains)"
    by (simp add: fallbackOptimization_def Let_def rankAll_def sortByScore_def
          scoredTrains_def)
  then have "rankedTrains (fallbackOptimization clk trains cs) = [] \<longleftrightarrow>
               filter serviceReady trains = []"
    by (metis length_0_conv)
  then show ?thesis
    by (simp add: filter_empty_conv)
qed

lemma average_NaN_iff:
  "averageConfidence (metrics (fallbackOptimization clk trains cs)) = Some NaN \<longleftrightarrow>
     rankedTrains (fallbackOptimization clk trains cs) = []"
  by (simp add: fallbackOptimization_def Let_def averageConfidenceOf_def)

text \<open>The plan built from the local optimizer's result passes validation exactly when some
  train is service-ready: otherwise its average confidence is \<^verbatim>\<open>NaN\<close>.\<close>

lemma validPlan_fallback:
  "validPlan (newInductionPlan fresh d user (fallbackOptimization clk trains cs)) \<longleftrightarrow>
     (\<exists>t \<in> set trains. serviceReady t)"
proof -
  have "averageConfidence (metricsDefaults (metrics (fallbackOptimization clk trains cs))) =
          averageConfidence (metrics (fallbackOptimization clk trains cs))"
    by (simp add: metricsDefaults_def fallbackOptimization_def Let_def)
  then show ?thesis
    using ranking_valid [of clk trains cs] alerts_valid [of clk trains cs]
      average_NaN_iff [of clk trains cs] ranking_empty_iff [of clk trains cs]
    by (simp add: validPlan_def newInductionPlan_def)
qed

subsection \<open>The plan store\<close>

lemma findFinalized_stored:
  assumes "findFinalized plans d = Some e"
  shows "d \<in> set (map planDate plans)"
proof -
  from assms obtain i where "i < length plans" and "plans ! i = e" and "planDate e = d"
    unfolding findFinalized_def find_Some_iff by blast
  then have "e \<in> set plans"
    by auto
  with \<open>planDate e = d\<close> show ?thesis
    by force
qed

lemma findFinalized_none:
  assumes "d \<notin> set (map planDate plans)"
  shows "findFinalized plans d = None"
proof (cases "findFinalized plans d")
  case None
  then show ?thesis .
next
  case (Some e)
  from findFinalized_stored [OF Some] assms show ?thesis
    by simp
qed

text \<open>Without \<^verbatim>\<open>forceRegenerate\<close>, a stored FINALIZED plan for the date answers 409 with that
  plan's id and leaves the database as it was.\<close>

lemma generate_conflict:
  assumes "findFinalized (db_plans db) d = Some e" and "b_planDate body = Some d"
    and "\<not> truthy (b_forceRegenerate body)"
  shows "generate clk today user fresh outcome body db = (Status409 (plan_id e), db)"
  using assms by (simp add: generate_def Let_def)

text \<open>With \<^verbatim>\<open>forceRegenerate\<close>, a stored FINALIZED plan for the date makes every run end
  without a 201 and without a change to the database: the insert meets the unique index.\<close>

lemma generate_force_duplicate:
  assumes "findFinalized (db_plans db) d = Some e" and "b_planDate body = Some d"
    and "truthy (b_forceRegenerate body)"
  shows "snd (generate clk today user fresh outcome body db) = db \<and>
         fst (generate clk today user fresh outcome body db) \<noteq> Status201 p"
proof -
  from assms(1) have mem: "d \<in> set (map planDate (db_plans db))"
    by (rule findFinalized_stored)
  show ?thesis
    using assms mem
    by (simp add: generate_def Let_def save_def newInductionPlan_def split: sum.split)
qed

text \<open>A refused connection, a fleet with a service-ready train and a date not yet stored:
  the plan of the local optimizer is appended.\<close>

lemma generate_refused:
  assumes "(case b_planDate body of None \<Rightarrow> today | Some x \<Rightarrow> x)
             \<notin> set (map planDate (db_plans db))"
    and "\<exists>t \<in> set (db_trains db). serviceReady (formatTrain t)"
  shows "generate clk today user fresh (Rejected (Some ''ECONNREFUSED'') msg) body db =
           (Status201
              (newInductionPlan fresh (case b_planDate body of None \<Rightarrow> today | Some x \<Rightarrow> x)
                 user
                 (fallbackOptimization clk (formatTrainsForAI (db_trains db))
                    (case b_constraints body of None \<Rightarrow> [] | Some c \<Rightarrow> c))),
            db\<lparr>db_plans := db_plans db @
              [newInductionPlan fresh (case b_planDate body of None \<Rightarrow> today | Some x \<Rightarrow> x)
                 user
                 (fallbackOptimization clk (formatTrainsForAI (db_trains db))
                    (case b_constraints body of None \<Rightarrow> [] | Some c \<Rightarrow> c))]\<rparr>)"
proof -
  let ?d = "case b_planDate body of None \<Rightarrow> today | Some x \<Rightarrow> x"
  let ?R = "fallbackOptimization clk (formatTrainsForAI (db_trains db))
              (case b_constraints body of None \<Rightarrow> [] | Some c \<Rightarrow> c)"
  from assms(2) have ne: "db_trains db \<noteq> []"
    by auto
  from assms(2) have "\<exists>t \<in> set (formatTrainsForAI (db_trains db)). serviceReady t"
    by (simp add: formatTrainsForAI_def)
  then have v: "validPlan (newInductionPlan fresh ?d user ?R)"
    by (simp add: validPlan_fallback)
  have pd: "planDate (newInductionPlan fresh ?d user ?R) = ?d"
    by (simp add: newInductionPlan_def)
  have sv: "save (newInductionPlan fresh ?d user ?R) (db_plans db) =
              Inr (db_plans db @ [newInductionPlan fresh ?d user ?R])"
    using v assms(1) by (simp add: save_def pd)
  have nf: "findFinalized (db_plans db) ?d = None"
    using assms(1) by (rule findFinalized_none)
  show ?thesis
    using ne nf sv by (simp add: generate_def Let_def callAIOptimizer_def)
qed

text \<open>A refused connection and a fleet without a service-ready train: the plan of the local
  optimizer fails validation, and nothing is stored.\<close>

lemma generate_refused_no_candidate:
  assumes "(case b_planDate body of None \<Rightarrow> today | Some x \<Rightarrow> x)
             \<notin> set (map planDate (db_plans db))"
    and "db_trains db \<noteq> []"
    and "\<not> (\<exists>t \<in> set (db_trains db). serviceReady (formatTrain t))"
  shows "generate clk today user fresh (Rejected (Some ''ECONNREFUSED'') msg) body db =
           (Status500 ''InductionPlan validation failed'', db)"
proof -
  let ?d = "case b_planDate body of None \<Rightarrow> today | Some x \<Rightarrow> x"
  let ?R = "fallbackOptimization clk (formatTrainsForAI (db_trains db))
              (case b_constraints body of None \<Rightarrow> [] | Some c \<Rightarrow> c)"
  from assms(3) have "\<not> (\<exists>t \<in> set (formatTrainsForAI (db_trains db)). serviceReady t)"
    by (simp add: formatTrainsForAI_def)
  then have v: "\<not> validPlan (newInductionPlan fresh ?d user ?R)"
    by (simp add: validPlan_fallback)
  have nf: "findFinalized (db_plans db) ?d = None"
    using assms(1) by (rule findFinalized_none)
  show ?thesis
    using assms(2) nf v by (simp add: generate_def Let_def callAIOptimizer_def save_def)
qed

text \<open>An optimizer call that raises: 500 once the handler reaches the call, and in every
  case the database is left as it was.\<close>

lemma generate_raises:
  assumes "callAIOptimizer clk outcome (formatTrainsForAI (db_trains db)) (b_constraints body) =
             Inl err"
  shows "snd (generate clk today user fresh outcome body db) = db \<and>
         ((case b_planDate body of None \<Rightarrow> today | Some x \<Rightarrow> x)
             \<notin> set (map planDate (db_plans db)) \<and> db_trains db \<noteq> [] \<longrightarrow>
          generate clk today user fresh outcome body db = (Status500 err, db))"
proof -
  have a: "snd (generate clk today user fresh outcome body db) = db"
    using assms by (simp add: generate_def Let_def split: option.split)
  have b: "generate clk today user fresh outcome body db = (Status500 err, db)"
    if "(case b_planDate body of None \<Rightarrow> today | Some x \<Rightarrow> x)
          \<notin> set (map planDate (db_plans db))" and "db_trains db \<noteq> []"
    using assms that findFinalized_none [OF that(1)] by (simp add: generate_def Let_def)
  from a b show ?thesis
    by blast
qed

lemma exA_ready: "serviceReady (formatTrain exA)"
  by (simp add: exA_def exTrain_def formatTrain_def serviceReady_def fitnessIsValid_def)

lemma exDb1_eq:
  "exDb1 = exDb\<lparr>db_plans :=
     [newInductionPlan 1 1000080000000 ''u1''
        (fallbackOptimization exClock (formatTrainsForAI [exA]) [])]\<rparr>"
proof -
  have d: "(case b_planDate (exBody False) of None \<Rightarrow> 1000000000000 | Some x \<Rightarrow> x)
             \<notin> set (map planDate (db_plans exDb))"
    by (simp add: exDb_def exBody_def)
  have r: "\<exists>t \<in> set (db_trains exDb). serviceReady (formatTrain t)"
    using exA_ready by (simp add: exDb_def)
  show ?thesis
    unfolding exDb1_def refused_def
    by (simp add: generate_refused [OF d r]) (simp add: exDb_def exBody_def)
qed

lemma exDb1_plans:
  "map plan_id (db_plans exDb1) = [1] \<and> map planDate (db_plans exDb1) = [1000080000000] \<and>
   map status (db_plans exDb1) = [''FINALIZED''] \<and> db_trains exDb1 = [exA]"
  by (simp add: exDb1_eq newInductionPlan_def exDb_def)

lemma exDb1_find: "findFinalized (db_plans exDb1) 1000080000000 = Some (hd (db_plans exDb1))"
proof -
  from exDb1_plans obtain p where p: "db_plans exDb1 = [p]"
    by (cases "db_plans exDb1") auto
  with exDb1_plans show ?thesis
    by (simp add: findFinalized_def)
qed

section \<open>The claims\<close>

text \<open>
  Claim C1 (eligibility filter). The claim: every ranked entry is hard-eligible, in particular
  its fitness expiry is strictly after now, so no train with an expired certificate is
  ranked. The filter of \<^verbatim>\<open>fallbackOptimization\<close> tests \<^verbatim>\<open>fitnessStatus.isValid\<close>, the
  maintenance status and the availability, and never reads \<^verbatim>\<open>expiryDate\<close>; the train
  model's \<^verbatim>\<open>isServiceReady\<close> does compare the expiry with the current date. Evaluated at a
  fleet of one train whose valid-flagged certificate expired a day before the clock's
  reading: the train is not hard-eligible, it is ranked first, and the same run reports
  its certificate as expired.
\<close>

theorem C1_expired_train_is_ranked:
  "fitnessStatus exExpired = Some \<lparr>isValid = True, expiryDate = Some 999913600000\<rparr> \<and>
   t_alerts exClock = 1000000000000 \<and>
   \<not> spec_hardEligible (t_alerts exClock) exExpired \<and>
   map train (rankedTrains (fallbackOptimization exClock [exExpired] [])) = [oid exExpired] \<and>
   map message (alerts (fallbackOptimization exClock [exExpired] [])) =
     [''TS-06 fitness certificate has expired'']"
  by (simp add: exExpired_def spec_hardEligible_def spec_fitnessValid_def opt_defs ex_defs
        alert_defs)




text \<open>
  Claim C3 (tie-break and determinism), as the claim states it: ties are broken by ascending
  trainset code, so the ranking does not depend on the order of the input. It fails on two
  trains that differ in identity only: both score 85, the comparator is
  \<^verbatim>\<open>b.score - a.score\<close> alone, and the stable sort keeps them in input order, so TS-02
  precedes TS-01 when it comes first and the two orders of the same fleet rank differently.
\<close>

theorem C3_input_order_counterexample:
  "mset [exB, exA] = mset [exA, exB] \<and>
   map score (scoredTrains [exB, exA]) = [85, 85] \<and>
   map train (rankedTrains (fallbackOptimization exClock [exB, exA] [])) = [oid exB, oid exA] \<and>
   map train (rankedTrains (fallbackOptimization exClock [exA, exB] [])) = [oid exA, oid exB] \<and>
   trainsetId exB = ''TS-02'' \<and> trainsetId exA = ''TS-01'' \<and>
   rankedTrains (fallbackOptimization exClock [exB, exA] []) \<noteq>
   rankedTrains (fallbackOptimization exClock [exA, exB] [])"
  by (simp add: exA_def exB_def opt_defs ex_defs)

text \<open>
  Claim C3, amended: the optimizer sorts the scored candidates by rounded score, descending,
  with a stable sort and no tie-break on the trainset code: the ranking is the sorted list
  numbered 1, 2, ..., its scores never increase, it is a rearrangement of the candidates,
  and candidates of equal score keep their input order. For the same list of trains in the
  same order the ranking is the same, whatever the clock and the constraints.
\<close>

theorem C3_stable_sort_by_score:
  "rankedTrains (fallbackOptimization clk trains cs) = rankAll (sortByScore (scoredTrains trains)) \<and>
   sorted_wrt (\<lambda>a b. score a \<ge> score b) (sortByScore (scoredTrains trains)) \<and>
   (\<forall>k. filter (\<lambda>s. score s = k) (sortByScore (scoredTrains trains)) =
        filter (\<lambda>s. score s = k) (scoredTrains trains)) \<and>
   mset (sortByScore (scoredTrains trains)) = mset (scoredTrains trains) \<and>
   map train (rankedTrains (fallbackOptimization clk trains cs)) =
     map s_train (sortByScore (scoredTrains trains)) \<and>
   map rank (rankedTrains (fallbackOptimization clk trains cs)) =
     [1..<length (filter serviceReady trains) + 1] \<and>
   rankedTrains (fallbackOptimization clk' trains cs') =
     rankedTrains (fallbackOptimization clk trains cs)"
proof -
  have stable: "filter (\<lambda>s. score s = k) (sortByScore xs) = filter (\<lambda>s. score s = k) xs"
    for k xs
    using sort_key_stable [of "\<lambda>s. - score s" "- k" xs] by (simp add: sortByScore_def)
  have len: "length (sortByScore (scoredTrains trains)) = length (filter serviceReady trains)"
    by (simp add: sortByScore_def scoredTrains_def)
  have srt: "sorted_wrt (\<lambda>a b. score a \<ge> score b) (sortByScore (scoredTrains trains))"
    unfolding sortByScore_def by (rule sorted_desc_sort_key)
  have ms: "mset (sortByScore (scoredTrains trains)) = mset (scoredTrains trains)"
    by (simp add: sortByScore_def)
  have rk: "rankedTrains (fallbackOptimization c trains x) =
              rankAll (sortByScore (scoredTrains trains))" for c x
    by (simp add: fallbackOptimization_def Let_def)
  show ?thesis
    by (simp add: rk stable srt ms len map_train_rankAll map_rank_rankAll)
qed

text \<open>Witness for claim C3, amended: at the fleet of the counterexample the ranks are 1 and
  2 in input order.\<close>

theorem C3_stable_sort_witness:
  "map rank (rankedTrains (fallbackOptimization exClock [exB, exA] [])) = [1, 2] \<and>
   map train (rankedTrains (fallbackOptimization exClock [exB, exA] [])) = [oid exB, oid exA]"
proof -
  have f: "filter serviceReady [exB, exA] = [exB, exA]"
    by (simp add: exA_def exB_def exTrain_def serviceReady_def fitnessIsValid_def)
  have s: "map s_train (sortByScore (scoredTrains [exB, exA])) = [oid exB, oid exA]"
    by (simp add: exA_def exB_def opt_defs ex_defs)
  have u: "[1..<length [exB, exA] + 1] = [1, 2]"
    by (simp add: upt_rec)
  have t: "map train (rankedTrains (fallbackOptimization exClock [exB, exA] [])) =
             map s_train (sortByScore (scoredTrains [exB, exA]))"
    and r: "map rank (rankedTrains (fallbackOptimization exClock [exB, exA] [])) =
              [1..<length (filter serviceReady [exB, exA]) + 1]"
    using C3_stable_sort_by_score [of exClock "[exB, exA]" "[]" exClock "[]"] by blast+
  show ?thesis
    by (simp only: t r f s u simp_thms)
qed

text \<open>
  Claim C4 (idempotency per plan date). The claim: with a FINALIZED plan stored for the date,
  a request without \<^verbatim>\<open>forceRegenerate\<close> answers 409 with that plan's id and stores nothing,
  and a request with \<^verbatim>\<open>forceRegenerate\<close> stores a second FINALIZED plan for the date beside
  the first. The first half holds (\<open>generate_conflict\<close>). The second does not: the handler
  goes on to \<^verbatim>\<open>plan.save()\<close>, the schema declares \<^verbatim>\<open>planDate\<close> unique, and the insert is
  rejected (\<open>generate_force_duplicate\<close>). Evaluated on a database of one train: the first
  request stores plan 1, the second answers 409 naming plan 1, and the third, with
  \<^verbatim>\<open>forceRegenerate: true\<close>, answers 500 and leaves plan 1 alone in the store, although the
  409 response itself suggests \<^verbatim>\<open>forceRegenerate: true\<close> to override.
\<close>

theorem C4_force_regenerate_hits_unique_index:
  "generate exClock 1000000000000 ''u1'' 1 refused (exBody False) exDb =
     (Status201 (hd (db_plans exDb1)), exDb1) \<and>
   map plan_id (db_plans exDb1) = [1] \<and>
   map planDate (db_plans exDb1) = [1000080000000] \<and>
   map status (db_plans exDb1) = [''FINALIZED''] \<and>
   generate exClock 1000000000000 ''u1'' 2 refused (exBody False) exDb1 = (Status409 1, exDb1) \<and>
   generate exClock 1000000000000 ''u1'' 2 refused (exBody True) exDb1 =
     (Status500 ''E11000 duplicate key error collection: inductionplans index: planDate_1'',
      exDb1)"
proof -
  have d: "(case b_planDate (exBody False) of None \<Rightarrow> 1000000000000 | Some x \<Rightarrow> x)
             \<notin> set (map planDate (db_plans exDb))"
    by (simp add: exDb_def exBody_def)
  have r: "\<exists>t \<in> set (db_trains exDb). serviceReady (formatTrain t)"
    using exA_ready by (simp add: exDb_def)
  have first: "generate exClock 1000000000000 ''u1'' 1 refused (exBody False) exDb =
     (Status201 (hd (db_plans exDb1)), exDb1)"
    unfolding refused_def
    by (simp add: generate_refused [OF d r] exDb1_eq) (simp add: exDb_def exBody_def)
  have id1: "plan_id (hd (db_plans exDb1)) = 1"
    using exDb1_plans by (cases "db_plans exDb1") auto
  have second: "generate exClock 1000000000000 ''u1'' 2 refused (exBody False) exDb1 =
      (Status409 1, exDb1)"
    using generate_conflict [OF exDb1_find, of "exBody False" exClock 1000000000000 "''u1''" 2
        refused]
    by (simp add: id1 exBody_def truthy_def)
  have third: "generate exClock 1000000000000 ''u1'' 2 refused (exBody True) exDb1 =
     (Status500 ''E11000 duplicate key error collection: inductionplans index: planDate_1'',
      exDb1)"
  proof -
    have v: "validPlan (newInductionPlan 2 1000080000000 ''u1''
               (fallbackOptimization exClock (formatTrainsForAI [exA]) []))"
      using exA_ready by (simp add: validPlan_fallback formatTrainsForAI_def)
    show ?thesis
      using exDb1_plans exDb1_find v
      by (simp add: generate_def Let_def exBody_def truthy_def callAIOptimizer_def refused_def
            save_def newInductionPlan_def)
  qed
  from first second third exDb1_plans show ?thesis
    by simp
qed

text \<open>
  Claim C5 (fallback), as the claim states it: a refused connection, a timeout and a malformed
  body all lead to the local optimizer, and the plan's algorithm is "Rule-Based Weighted
  Scoring". It fails on a timeout: \<^verbatim>\<open>callAIOptimizer\<close> falls back only when the error's code
  is \<^verbatim>\<open>ECONNREFUSED\<close>, so the timeout is rethrown and the handler answers 500 and stores
  nothing; an empty body is rethrown in the same way; and the local optimizer names its
  algorithm "Rule-Based Weighted Scoring (Fallback)".
\<close>

theorem C5_no_fallback_on_timeout_counterexample:
  "callAIOptimizer exClock timedOut (formatTrainsForAI [exA]) None =
     Inl ''AI optimization failed: timeout of 60000ms exceeded'' \<and>
   generate exClock 1000000000000 ''u1'' 1 timedOut (exBody False) exDb =
     (Status500 ''AI optimization failed: timeout of 60000ms exceeded'', exDb) \<and>
   callAIOptimizer exClock (Resolved None) (formatTrainsForAI [exA]) None =
     Inl ''AI optimization failed: Empty response from AI service'' \<and>
   algorithm (modelInfo (fallbackOptimization exClock (formatTrainsForAI [exA]) [])) =
     Some ''Rule-Based Weighted Scoring (Fallback)'' \<and>
   ''Rule-Based Weighted Scoring (Fallback)'' \<noteq> ''Rule-Based Weighted Scoring''"
  by (simp add: gen_defs truthy_def Let_def fallbackOptimization_def)

text \<open>
  Claim C5, amended: when the call to the external optimizer is refused (\<^verbatim>\<open>ECONNREFUSED\<close>),
  \<^verbatim>\<open>callAIOptimizer\<close> returns the local optimizer's result on the same trains and
  constraints; then, for a plan date with no stored plan and a fleet with at least one
  service-ready train, plan generation answers 201 and appends a FINALIZED plan whose
  algorithm is "Rule-Based Weighted Scoring (Fallback)" and whose ranking is the local
  optimizer's on the formatted fleet. Any other rejection (a timeout among them) and an
  empty response body raise "AI optimization failed": generation then stores nothing, and
  answers 500 for a plan date with no stored plan and a fleet that is not empty. Any other
  body is taken as the result, with defaults for the properties it lacks.
\<close>

theorem C5_fallback_on_connection_refused:
  assumes newDate: "(case b_planDate body of None \<Rightarrow> today | Some x \<Rightarrow> x)
                      \<notin> set (map planDate (db_plans db))"
  shows "callAIOptimizer clk (Rejected (Some ''ECONNREFUSED'') msg) trains cs =
           Inr (fallbackOptimization clk trains (case cs of None \<Rightarrow> [] | Some c \<Rightarrow> c)) \<and>
         ((\<exists>t \<in> set (db_trains db). serviceReady (formatTrain t)) \<longrightarrow>
          (\<exists>p. generate clk today user fresh (Rejected (Some ''ECONNREFUSED'') msg) body db =
                 (Status201 p, db\<lparr>db_plans := db_plans db @ [p]\<rparr>) \<and>
               status p = ''FINALIZED'' \<and>
               algorithm (aiModelInfo p) = Some ''Rule-Based Weighted Scoring (Fallback)'' \<and>
               plan_rankedTrains p =
                 rankedTrains (fallbackOptimization clk (formatTrainsForAI (db_trains db))
                   (case b_constraints body of None \<Rightarrow> [] | Some c \<Rightarrow> c)))) \<and>
         (code \<noteq> Some ''ECONNREFUSED'' \<longrightarrow>
            callAIOptimizer clk (Rejected code msg) trains cs =
              Inl (''AI optimization failed: '' @ msg) \<and>
            snd (generate clk today user fresh (Rejected code msg) body db) = db \<and>
            (db_trains db \<noteq> [] \<longrightarrow>
               generate clk today user fresh (Rejected code msg) body db =
                 (Status500 (''AI optimization failed: '' @ msg), db))) \<and>
         callAIOptimizer clk (Resolved None) trains cs =
           Inl ''AI optimization failed: Empty response from AI service'' \<and>
         snd (generate clk today user fresh (Resolved None) body db) = db \<and>
         (db_trains db \<noteq> [] \<longrightarrow>
            generate clk today user fresh (Resolved None) body db =
              (Status500 ''AI optimization failed: Empty response from AI service'', db)) \<and>
         callAIOptimizer clk (Resolved (Some d)) trains cs =
           Inr \<lparr>rankedTrains = (case d_rankedTrains d of None \<Rightarrow> [] | Some r \<Rightarrow> r),
                alerts = (case d_alerts d of None \<Rightarrow> [] | Some a \<Rightarrow> a),
                metrics = (case d_metrics d of None \<Rightarrow> emptyMetrics | Some m \<Rightarrow> m),
                modelInfo = (case d_modelInfo d of None \<Rightarrow> unknownModel | Some m \<Rightarrow> m)\<rparr>"
proof -
  have c1: "callAIOptimizer clk (Rejected (Some ''ECONNREFUSED'') msg) trains cs =
           Inr (fallbackOptimization clk trains (case cs of None \<Rightarrow> [] | Some c \<Rightarrow> c))"
    by (simp add: callAIOptimizer_def)
  have c2: "callAIOptimizer clk (Rejected code msg) ts c =
              Inl (''AI optimization failed: '' @ msg)"
    if "code \<noteq> Some ''ECONNREFUSED''" for ts c
    using that by (simp add: callAIOptimizer_def)
  have c3: "callAIOptimizer clk (Resolved None) ts c =
           Inl ''AI optimization failed: Empty response from AI service''" for ts c
    by (simp add: callAIOptimizer_def)
  have c4: "callAIOptimizer clk (Resolved (Some d)) trains cs =
           Inr \<lparr>rankedTrains = (case d_rankedTrains d of None \<Rightarrow> [] | Some r \<Rightarrow> r),
                alerts = (case d_alerts d of None \<Rightarrow> [] | Some a \<Rightarrow> a),
                metrics = (case d_metrics d of None \<Rightarrow> emptyMetrics | Some m \<Rightarrow> m),
                modelInfo = (case d_modelInfo d of None \<Rightarrow> unknownModel | Some m \<Rightarrow> m)\<rparr>"
    by (simp add: callAIOptimizer_def)
  have g1: "\<exists>p. generate clk today user fresh (Rejected (Some ''ECONNREFUSED'') msg) body db =
                (Status201 p, db\<lparr>db_plans := db_plans db @ [p]\<rparr>) \<and>
              status p = ''FINALIZED'' \<and>
              algorithm (aiModelInfo p) = Some ''Rule-Based Weighted Scoring (Fallback)'' \<and>
              plan_rankedTrains p =
                rankedTrains (fallbackOptimization clk (formatTrainsForAI (db_trains db))
                  (case b_constraints body of None \<Rightarrow> [] | Some c \<Rightarrow> c))"
    if ready: "\<exists>t \<in> set (db_trains db). serviceReady (formatTrain t)"
  proof -
    let ?p = "newInductionPlan fresh (case b_planDate body of None \<Rightarrow> today | Some x \<Rightarrow> x)
                user
                (fallbackOptimization clk (formatTrainsForAI (db_trains db))
                   (case b_constraints body of None \<Rightarrow> [] | Some c \<Rightarrow> c))"
    have "generate clk today user fresh (Rejected (Some ''ECONNREFUSED'') msg) body db =
            (Status201 ?p, db\<lparr>db_plans := db_plans db @ [?p]\<rparr>)"
      by (rule generate_refused [OF newDate ready])
    moreover have "status ?p = ''FINALIZED''"
      by (simp add: newInductionPlan_def)
    moreover have "algorithm (aiModelInfo ?p) =
        Some ''Rule-Based Weighted Scoring (Fallback)''"
      by (simp add: newInductionPlan_def modelInfoDefaults_def fallbackOptimization_def
            Let_def)
    moreover have "plan_rankedTrains ?p =
        rankedTrains (fallbackOptimization clk (formatTrainsForAI (db_trains db))
          (case b_constraints body of None \<Rightarrow> [] | Some c \<Rightarrow> c))"
      by (simp add: newInductionPlan_def)
    ultimately show ?thesis
      by blast
  qed
  have g2: "snd (generate clk today user fresh (Rejected code msg) body db) = db \<and>
            (db_trains db \<noteq> [] \<longrightarrow>
               generate clk today user fresh (Rejected code msg) body db =
                 (Status500 (''AI optimization failed: '' @ msg), db))"
    if "code \<noteq> Some ''ECONNREFUSED''"
  proof -
    have "callAIOptimizer clk (Rejected code msg) (formatTrainsForAI (db_trains db))
            (b_constraints body) = Inl (''AI optimization failed: '' @ msg)"
      by (rule c2 [OF that])
    from generate_raises [OF this] newDate show ?thesis
      by blast
  qed
  have g3: "snd (generate clk today user fresh (Resolved None) body db) = db \<and>
            (db_trains db \<noteq> [] \<longrightarrow>
               generate clk today user fresh (Resolved None) body db =
                 (Status500 ''AI optimization failed: Empty response from AI service'', db))"
  proof -
    have "callAIOptimizer clk (Resolved None) (formatTrainsForAI (db_trains db))
            (b_constraints body) =
          Inl ''AI optimization failed: Empty response from AI service''"
      by (rule c3)
    from generate_raises [OF this] newDate show ?thesis
      by blast
  qed
  from c1 c2 c3 c4 g1 g2 g3 show ?thesis
    by blast
qed

text \<open>Witness for claim C5, amended: on a database of one service-ready train and no plan, a
  timeout and an empty body raise and generation answers 500, and a refusal stores a plan
  of the fallback algorithm that ranks the train.\<close>

theorem C5_fallback_witness:
  "(case b_planDate (exBody False) of None \<Rightarrow> 1000000000000 | Some x \<Rightarrow> x)
      \<notin> set (map planDate (db_plans exDb)) \<and>
   exA \<in> set (db_trains exDb) \<and> serviceReady (formatTrain exA) \<and>
   Some ''ECONNABORTED'' \<noteq> Some ''ECONNREFUSED'' \<and> db_trains exDb \<noteq> [] \<and>
   generate exClock 1000000000000 ''u1'' 1
       (Rejected (Some ''ECONNABORTED'') ''timeout of 60000ms exceeded'') (exBody False) exDb =
     (Status500 ''AI optimization failed: timeout of 60000ms exceeded'', exDb) \<and>
   generate exClock 1000000000000 ''u1'' 1 (Resolved None) (exBody False) exDb =
     (Status500 ''AI optimization failed: Empty response from AI service'', exDb) \<and>
   (\<exists>p. generate exClock 1000000000000 ''u1'' 1
           (Rejected (Some ''ECONNREFUSED'') ''connect ECONNREFUSED 127.0.0.1:5000'')
           (exBody False) exDb = (Status201 p, exDb\<lparr>db_plans := db_plans exDb @ [p]\<rparr>) \<and>
        algorithm (aiModelInfo p) = Some ''Rule-Based Weighted Scoring (Fallback)'' \<and>
        map train (plan_rankedTrains p) = [oid exA])"
proof -
  have h2: "(case b_planDate (exBody False) of None \<Rightarrow> 1000000000000 | Some x \<Rightarrow> x)
      \<notin> set (map planDate (db_plans exDb))"
    by (simp add: exDb_def exBody_def)
  have h1: "db_trains exDb \<noteq> []"
    by (simp add: exDb_def)
  have h3: "exA \<in> set (db_trains exDb)"
    by (simp add: exDb_def)
  from h3 exA_ready have h5: "\<exists>t \<in> set (db_trains exDb). serviceReady (formatTrain t)"
    by blast
  have ne: "Some ''ECONNABORTED'' \<noteq> Some ''ECONNREFUSED''"
    by simp
  have r: "map train (rankedTrains (fallbackOptimization exClock
             (formatTrainsForAI (db_trains exDb))
             (case b_constraints (exBody False) of None \<Rightarrow> [] | Some c \<Rightarrow> c))) = [oid exA]"
    by (simp add: exDb_def exBody_def formatTrainsForAI_def formatTrain_def exA_def
          opt_defs ex_defs)
  note inst = C5_fallback_on_connection_refused [OF h2, where clk = exClock
      and trains = "[exA]" and cs = None and code = "Some ''ECONNABORTED''"
      and user = "''u1''" and fresh = 1]
  from inst [where msg = "''connect ECONNREFUSED 127.0.0.1:5000''"] h5
  have g: "\<exists>p. generate exClock 1000000000000 ''u1'' 1
           (Rejected (Some ''ECONNREFUSED'') ''connect ECONNREFUSED 127.0.0.1:5000'')
           (exBody False) exDb = (Status201 p, exDb\<lparr>db_plans := db_plans exDb @ [p]\<rparr>) \<and>
        status p = ''FINALIZED'' \<and>
        algorithm (aiModelInfo p) = Some ''Rule-Based Weighted Scoring (Fallback)'' \<and>
        plan_rankedTrains p = rankedTrains (fallbackOptimization exClock
             (formatTrainsForAI (db_trains exDb))
             (case b_constraints (exBody False) of None \<Rightarrow> [] | Some c \<Rightarrow> c))"
    by blast
  from g r have g': "\<exists>p. generate exClock 1000000000000 ''u1'' 1
           (Rejected (Some ''ECONNREFUSED'') ''connect ECONNREFUSED 127.0.0.1:5000'')
           (exBody False) exDb = (Status201 p, exDb\<lparr>db_plans := db_plans exDb @ [p]\<rparr>) \<and>
        algorithm (aiModelInfo p) = Some ''Rule-Based Weighted Scoring (Fallback)'' \<and>
        map train (plan_rankedTrains p) = [oid exA]"
    by auto
  from inst [where msg = "''timeout of 60000ms exceeded''"] ne h1
  have t: "generate exClock 1000000000000 ''u1'' 1
       (Rejected (Some ''ECONNABORTED'') ''timeout of 60000ms exceeded'') (exBody False) exDb =
     (Status500 ''AI optimization failed: timeout of 60000ms exceeded'', exDb)"
    by simp
  from inst [where msg = "''timeout of 60000ms exceeded''"] h1
  have e: "generate exClock 1000000000000 ''u1'' 1 (Resolved None) (exBody False) exDb =
     (Status500 ''AI optimization failed: Empty response from AI service'', exDb)"
    by simp
  from h1 h2 h3 exA_ready ne t e g' show ?thesis
    by blast
qed

text \<open>
  Claim C6 (empty ranking). The claim: when no train passes the filter the result is the empty
  ranking, \<^verbatim>\<open>totalTrainsEvaluated\<close> is the size of the input, \<^verbatim>\<open>constraintsSatisfied\<close> is 0
  and \<^verbatim>\<open>averageConfidence\<close> is 0. The first three hold; the average is computed as the sum
  over the ranking divided by its length with no guard for the empty ranking, which is
  \<^verbatim>\<open>0 / 0\<close>, so \<^verbatim>\<open>averageConfidence\<close> is \<^verbatim>\<open>NaN\<close> (the plan schema's default for the path
  is 0). Evaluated on a fleet of one train in maintenance, and on the empty fleet.
\<close>

theorem C6_empty_ranking_average_is_NaN:
  "filter serviceReady [exGrounded] = [] \<and>
   rankedTrains (fallbackOptimization exClock [exGrounded] []) = [] \<and>
   totalTrainsEvaluated (metrics (fallbackOptimization exClock [exGrounded] [])) = Some 1 \<and>
   constraintsSatisfied (metrics (fallbackOptimization exClock [exGrounded] [])) = Some 0 \<and>
   averageConfidence (metrics (fallbackOptimization exClock [exGrounded] [])) = Some NaN \<and>
   averageConfidence (metrics (fallbackOptimization exClock [] [])) = Some NaN"
  by (simp add: exGrounded_def opt_defs ex_defs)

text \<open>
  Claim C7 (fitness-expiry alerts). For a train \<open>t\<close> of the fleet with a fitness expiry date
  \<open>e\<close> and \<open>d = floor((e - now) / 1 day)\<close>, the fitness alerts of \<open>t\<close> are: one CRITICAL
  alert of severity 5 with the message "<code> fitness certificate has expired" when
  \<open>d < 0\<close>; one CRITICAL alert of severity 5 with "<code> fitness certificate expires in
  <d> days" when \<open>0 \<le> d \<le> 3\<close>; one WARNING alert of severity 3 when \<open>4 \<le> d \<le> 7\<close>; none
  when \<open>d > 7\<close>. The list \<^verbatim>\<open>generateAlerts\<close> returns contains them: it holds, for each
  train of the fleet, exactly the train's fitness alerts, maintenance alert and
  availability alert, and it is sorted by severity, descending.
\<close>

theorem C7_fitness_alert_rules:
  assumes "t \<in> set trains" and "fitnessStatus t = Some f" and "expiryDate f = Some e"
  shows "(let d = (e - now) div 86400000 in
          fitnessAlerts now t =
            (if d < 0 then
               [\<lparr>alertType = ''CRITICAL'',
                 message = trainsetId t @ '' fitness certificate has expired'',
                 trainId = trainsetId t, severity = 5\<rparr>]
             else if d \<le> 3 then
               [\<lparr>alertType = ''CRITICAL'',
                 message = trainsetId t @ '' fitness certificate expires in '' @
                           string_of_int d @ '' days'',
                 trainId = trainsetId t, severity = 5\<rparr>]
             else if d \<le> 7 then
               [\<lparr>alertType = ''WARNING'',
                 message = trainsetId t @ '' fitness certificate expires in '' @
                           string_of_int d @ '' days'',
                 trainId = trainsetId t, severity = 3\<rparr>]
             else [])) \<and>
         length (fitnessAlerts now t) \<le> 1 \<and>
         set (fitnessAlerts now t) \<subseteq> set (generateAlerts now trains) \<and>
         mset (fitnessAlerts now t) \<subseteq># mset (generateAlerts now trains) \<and>
         sorted_wrt (\<lambda>a b. severity a \<ge> severity b) (generateAlerts now trains) \<and>
         mset (generateAlerts now trains) =
           mset (concat (map (\<lambda>x. fitnessAlerts now x @ maintenanceAlerts x @
                                   availabilityAlerts x) trains))"
proof -
  have a: "(let d = (e - now) div 86400000 in
          fitnessAlerts now t =
            (if d < 0 then
               [\<lparr>alertType = ''CRITICAL'',
                 message = trainsetId t @ '' fitness certificate has expired'',
                 trainId = trainsetId t, severity = 5\<rparr>]
             else if d \<le> 3 then
               [\<lparr>alertType = ''CRITICAL'',
                 message = trainsetId t @ '' fitness certificate expires in '' @
                           string_of_int d @ '' days'',
                 trainId = trainsetId t, severity = 5\<rparr>]
             else if d \<le> 7 then
               [\<lparr>alertType = ''WARNING'',
                 message = trainsetId t @ '' fitness certificate expires in '' @
                           string_of_int d @ '' days'',
                 trainId = trainsetId t, severity = 3\<rparr>]
             else []))"
    using assms(2,3) by (simp add: fitnessAlerts_def daysUntilExpiry_def msPerDay_def Let_def)
  have b: "length (fitnessAlerts now t) \<le> 1"
    by (simp add: fitnessAlerts_def Let_def split: option.split)
  have d: "mset (generateAlerts now trains) =
           mset (concat (map (\<lambda>x. fitnessAlerts now x @ maintenanceAlerts x @
                                   availabilityAlerts x) trains))"
    by (simp add: generateAlerts_def trainAlerts_def [abs_def])
  have m: "mset (fitnessAlerts now t) \<subseteq># mset (generateAlerts now trains)"
    by (simp add: generateAlerts_def mset_alerts_of_train [OF assms(1)])
  then have "set_mset (mset (fitnessAlerts now t)) \<subseteq> set_mset (mset (generateAlerts now trains))"
    by (rule set_mset_mono)
  then have s: "set (fitnessAlerts now t) \<subseteq> set (generateAlerts now trains)"
    by simp
  have c: "sorted_wrt (\<lambda>a b. severity a \<ge> severity b) (generateAlerts now trains)"
    unfolding generateAlerts_def by (rule sorted_desc_sort_key)
  from a b c d m s show ?thesis
    by simp
qed

text \<open>Witness for claim C7: for a fleet of one train whose certificate expires two days
  after the clock's reading, the alert generator returns one CRITICAL alert.\<close>

theorem C7_fitness_alert_witness:
  "exSoon \<in> set [exSoon] \<and>
   fitnessStatus exSoon = Some \<lparr>isValid = True, expiryDate = Some 1000172800000\<rparr> \<and>
   expiryDate \<lparr>isValid = True, expiryDate = Some 1000172800000\<rparr> = Some 1000172800000 \<and>
   fitnessAlerts 1000000000000 exSoon =
     [\<lparr>alertType = ''CRITICAL'', message = ''TS-04 fitness certificate expires in 2 days'',
       trainId = ''TS-04'', severity = 5\<rparr>] \<and>
   \<lparr>alertType = ''CRITICAL'', message = ''TS-04 fitness certificate expires in 2 days'',
     trainId = ''TS-04'', severity = 5\<rparr> \<in> set (generateAlerts 1000000000000 [exSoon]) \<and>
   generateAlerts 1000000000000 [exSoon] =
     [\<lparr>alertType = ''CRITICAL'', message = ''TS-04 fitness certificate expires in 2 days'',
       trainId = ''TS-04'', severity = 5\<rparr>]"
proof -
  have i: "exSoon \<in> set [exSoon]"
    by simp
  have f: "fitnessStatus exSoon = Some \<lparr>isValid = True, expiryDate = Some 1000172800000\<rparr>"
    by (simp add: exSoon_def exTrain_def msPerDay_def)
  have e: "expiryDate \<lparr>isValid = True, expiryDate = Some 1000172800000\<rparr> = Some 1000172800000"
    by simp
  have c: "trainsetId exSoon = ''TS-04''"
    by (simp add: exSoon_def exTrain_def)
  note inst = C7_fitness_alert_rules [OF i f e, of 1000000000000]
  from inst c
  have fa: "fitnessAlerts 1000000000000 exSoon =
     [\<lparr>alertType = ''CRITICAL'', message = ''TS-04 fitness certificate expires in 2 days'',
       trainId = ''TS-04'', severity = 5\<rparr>]"
    by (simp add: string_of_int_digit digit_def)
  from inst have "set (fitnessAlerts 1000000000000 exSoon) \<subseteq>
                   set (generateAlerts 1000000000000 [exSoon])"
    by blast
  with fa have mem: "\<lparr>alertType = ''CRITICAL'',
       message = ''TS-04 fitness certificate expires in 2 days'',
       trainId = ''TS-04'', severity = 5\<rparr> \<in> set (generateAlerts 1000000000000 [exSoon])"
    by simp
  have ga: "generateAlerts 1000000000000 [exSoon] =
     [\<lparr>alertType = ''CRITICAL'', message = ''TS-04 fitness certificate expires in 2 days'',
       trainId = ''TS-04'', severity = 5\<rparr>]"
    using fa
    by (simp add: generateAlerts_def trainAlerts_def maintenanceAlerts_def
          availabilityAlerts_def exSoon_def exTrain_def truthy_def)
  from i f e fa mem ga show ?thesis
    by simp
qed

text \<open>
  Claim C8 (confidence). The ranking lists the service-ready trains sorted by rounded score,
  and the confidence of each entry is \<^verbatim>\<open>clamp(round(score), 60, 100)\<close> of its train's score;
  so every confidence lies between 60 and 100, the confidence is monotone in the score,
  and a score of zero or below gives 60.
\<close>

theorem C8_confidence_is_clamped_rounded_score:
  "map confidenceScore (rankedTrains (fallbackOptimization clk trains cs)) =
     map (\<lambda>t. spec_confidence (rawScore trains t))
       (sort_key (\<lambda>t. - round (rawScore trains t)) (filter serviceReady trains)) \<and>
   map train (rankedTrains (fallbackOptimization clk trains cs)) =
     map oid (sort_key (\<lambda>t. - round (rawScore trains t)) (filter serviceReady trains)) \<and>
   (\<forall>r \<in> set (rankedTrains (fallbackOptimization clk trains cs)).
      60 \<le> confidenceScore r \<and> confidenceScore r \<le> 100) \<and>
   (\<forall>a b. a \<le> b \<longrightarrow> spec_confidence a \<le> spec_confidence b) \<and>
   (\<forall>s. s \<le> 0 \<longrightarrow> spec_confidence s = 60)"
proof -
  let ?cands = "sort_key (\<lambda>t. - round (rawScore trains t)) (filter serviceReady trains)"
  have rk: "rankedTrains (fallbackOptimization clk trains cs) =
              rankAll (map (scoreTrain trains) ?cands)"
    by (simp add: fallbackOptimization_def Let_def sortByScore_scoredTrains)
  have c: "map confidenceScore (rankedTrains (fallbackOptimization clk trains cs)) =
             map (\<lambda>t. spec_confidence (rawScore trains t)) ?cands"
    by (simp add: rk map_confidence_rankAll comp_def scoreTrain_def spec_confidence_eq)
  have t: "map train (rankedTrains (fallbackOptimization clk trains cs)) = map oid ?cands"
    by (simp add: rk map_train_rankAll comp_def scoreTrain_def)
  have b: "60 \<le> confidenceScore r \<and> confidenceScore r \<le> 100"
    if "r \<in> set (rankedTrains (fallbackOptimization clk trains cs))" for r
  proof -
    from that have "confidenceScore r \<in>
        set (map confidenceScore (rankedTrains (fallbackOptimization clk trains cs)))"
      by simp
    then obtain x where "confidenceScore r = spec_confidence x"
      unfolding c by auto
    then show ?thesis
      by (simp add: spec_confidence_def clamp_def)
  qed
  show ?thesis
    using c t b spec_confidence_mono spec_confidence_nonpos by blast
qed

text \<open>Witness for claim C8: a fleet whose one candidate scores 80 has confidence 80; a score
  of -3 gives 60, and the scores 70 and 120 give confidences in the same order.\<close>

theorem C8_confidence_witness:
  "rankedTrains (fallbackOptimization exClock [exLow, exGrounded] []) \<noteq> [] \<and>
   map confidenceScore (rankedTrains (fallbackOptimization exClock [exLow, exGrounded] [])) =
     [80] \<and>
   spec_confidence (-3) = 60 \<and> spec_confidence 70 \<le> spec_confidence 120"
proof -
  have r: "rawScore [exLow, exGrounded] exLow = 80"
    by (simp add: exLow_def exGrounded_def opt_defs ex_defs)
  have f: "filter serviceReady [exLow, exGrounded] = [exLow]"
    by (simp add: exLow_def exGrounded_def serviceReady_def fitnessIsValid_def exTrain_def)
  have s: "spec_confidence 80 = 80"
    by (simp add: spec_confidence_def clamp_def)
  have le: "(-3::rat) \<le> 0" "(70::rat) \<le> 120"
    by simp_all
  from C8_confidence_is_clamped_rounded_score [of exClock "[exLow, exGrounded]" "[]"] r f s le
  show ?thesis
    by auto
qed

text \<open>
  Claim C9 (simulation rank). The claim: for a target referenced by trainset code or by id,
  \<^verbatim>\<open>newRank\<close> is the target's rank in the recomputed ranking, and it is null exactly when
  the target was filtered out. \<^verbatim>\<open>fallbackSimulation\<close> finds the train to modify by
  \<^verbatim>\<open>trainsetId\<close> or by \<^verbatim>\<open>_id\<close>, but looks the rank up by comparing the reference with the
  entry's \<^verbatim>\<open>train\<close>, which is the \<^verbatim>\<open>_id\<close>. Evaluated on the fleet TS-01, TS-02 with the
  reference \<^verbatim>\<open>TS-02\<close> and a branding overlay of priority 5: the overlay is applied and TS-02
  is ranked first, yet \<^verbatim>\<open>newRank\<close> is undefined and \<^verbatim>\<open>rankChange\<close> is "Not in top
  rankings"; the same request by \<^verbatim>\<open>_id\<close> gives \<^verbatim>\<open>newRank\<close> 1.
\<close>

theorem C9_rank_lookup_misses_trainset_code:
  "trainsetId exB = ''TS-02'' \<and> oid exB = ''665f1c2ab7e4a900123456b2'' \<and>
   map train (rankedTrains (sim_result (fallbackSimulation exClock [exA, exB] ''TS-02''
        (noModifications\<lparr>m_branding := Some \<lparr>hasBranding = True, brandingPriority = Some 5\<rparr>\<rparr>)
        []))) = [oid exB, oid exA] \<and>
   map rank (rankedTrains (sim_result (fallbackSimulation exClock [exA, exB] ''TS-02''
        (noModifications\<lparr>m_branding := Some \<lparr>hasBranding = True, brandingPriority = Some 5\<rparr>\<rparr>)
        []))) = [1, 2] \<and>
   newRank (impactAnalysis (fallbackSimulation exClock [exA, exB] ''TS-02''
        (noModifications\<lparr>m_branding := Some \<lparr>hasBranding = True, brandingPriority = Some 5\<rparr>\<rparr>)
        [])) = None \<and>
   rankChange (impactAnalysis (fallbackSimulation exClock [exA, exB] ''TS-02''
        (noModifications\<lparr>m_branding := Some \<lparr>hasBranding = True, brandingPriority = Some 5\<rparr>\<rparr>)
        [])) = ''Not in top rankings'' \<and>
   newRank (impactAnalysis (fallbackSimulation exClock [exA, exB] ''665f1c2ab7e4a900123456b2''
        (noModifications\<lparr>m_branding := Some \<lparr>hasBranding = True, brandingPriority = Some 5\<rparr>\<rparr>)
        [])) = Some 1"
  by (simp add: sim_defs exA_def exB_def opt_defs ex_defs)

text \<open>
  Claim C10 (constraints record). In every output of the fallback optimizer each ranked entry
  carries the same constraints record: \<^verbatim>\<open>fitnessValid\<close> true, \<^verbatim>\<open>maintenanceReady\<close> true,
  \<^verbatim>\<open>cleaningStatus\<close> "CLEAN", and neither \<^verbatim>\<open>brandingPriority\<close> nor \<^verbatim>\<open>mileageBalance\<close>,
  whatever the train's own state.
\<close>

theorem C10_constraints_constant:
  "map constraints (rankedTrains (fallbackOptimization clk trains cs)) =
     replicate (length (filter serviceReady trains))
       \<lparr>c_fitnessValid = Some True, c_maintenanceReady = Some True,
        c_cleaningStatus = Some ''CLEAN'', c_brandingPriority = None,
        c_mileageBalance = None\<rparr>"
  by (simp add: fallbackOptimization_def Let_def map_constraints_rankAll sortByScore_def
        scoredTrains_def)

text \<open>Witness for claim C10: a train whose cleaning is due and whose maintenance is due is
  still recorded as CLEAN and maintenance-ready.\<close>

theorem C10_constraints_witness:
  "cleaningStatus exDirty = Some ''CLEANING_DUE'' \<and> maintenanceDue exDirty = Some True \<and>
   map constraints (rankedTrains (fallbackOptimization exClock [exDirty] [])) =
     [\<lparr>c_fitnessValid = Some True, c_maintenanceReady = Some True,
       c_cleaningStatus = Some ''CLEAN'', c_brandingPriority = None,
       c_mileageBalance = None\<rparr>]"
proof -
  have f: "filter serviceReady [exDirty] = [exDirty]"
    by (simp add: exDirty_def exA_def exTrain_def serviceReady_def fitnessIsValid_def)
  have d: "cleaningStatus exDirty = Some ''CLEANING_DUE'' \<and> maintenanceDue exDirty = Some True"
    by (simp add: exDirty_def)
  from C10_constraints_constant [of exClock "[exDirty]" "[]"] f d show ?thesis
    by simp
qed

end
